theory Spec2Isabelle
  imports Complex_Main
begin

section \<open>Python values and the operations the handler applies to them\<close>

text \<open>
  The handler of \<^verbatim>\<open>backend/src/lambda_function.py\<close> receives the Lambda event, a value
  decoded from JSON, and inspects it with \<^verbatim>\<open>in\<close>, \<^verbatim>\<open>[...]\<close>, \<^verbatim>\<open>.keys()\<close>,
  \<^verbatim>\<open>.get\<close>, \<^verbatim>\<open>.split\<close> and \<^verbatim>\<open>.lower()\<close>. Each of them raises on the wrong
  type of operand, so each is a function into \<open>py_exn + _\<close> here. A dict is an
  association list in insertion order, looked up with \<open>map_of\<close>.
\<close>

datatype json =
    JNull
  | JBool bool
  | JInt int
  | JFloat rat
  | JStr string
  | JArr "json list"
  | JObj "(string \<times> json) list"

datatype exn_class = KeyError | IndexError | TypeError | AttributeError | JSONDecodeError | OtherError

text \<open>
  An exception is its class and the text that \<^verbatim>\<open>str(e)\<close> gives. \<open>OtherError\<close>
  stands for every other subclass of \<^verbatim>\<open>Exception\<close>. The wording of the messages
  that the interpreter itself raises is CPython's; no statement below depends on it
  except where it is written out.
\<close>

datatype py_exn = Exn exn_class string

fun str_exn :: "py_exn \<Rightarrow> string" where
  "str_exn (Exn c msg) = msg"

fun exn_class_of :: "py_exn \<Rightarrow> exn_class" where
  "exn_class_of (Exn c msg) = c"

fun py_type_name :: "json \<Rightarrow> string" where
  "py_type_name JNull = ''NoneType''"
| "py_type_name (JBool b) = ''bool''"
| "py_type_name (JInt i) = ''int''"
| "py_type_name (JFloat q) = ''float''"
| "py_type_name (JStr s) = ''str''"
| "py_type_name (JArr xs) = ''list''"
| "py_type_name (JObj kvs) = ''dict''"

text \<open>A text between single quotes, and one between double quotes.\<close>

definition quoted :: "string \<Rightarrow> string" where
  "quoted s = [CHR 0x27] @ s @ [CHR 0x27]"

definition dquoted :: "string \<Rightarrow> string" where
  "dquoted s = [CHR 0x22] @ s @ [CHR 0x22]"

definition no_attribute :: "json \<Rightarrow> string \<Rightarrow> py_exn" where
  "no_attribute v a =
     Exn AttributeError (quoted (py_type_name v) @ '' object has no attribute '' @ quoted a)"

text \<open>\<^verbatim>\<open>p in s\<close> on two strings: \<open>p\<close> occurs in \<open>s\<close> as a contiguous run.\<close>

fun starts_with :: "string \<Rightarrow> string \<Rightarrow> bool" where
  "starts_with [] s = True"
| "starts_with (p # ps) [] = False"
| "starts_with (p # ps) (c # cs) = (p = c \<and> starts_with ps cs)"

fun py_str_contains :: "string \<Rightarrow> string \<Rightarrow> bool" where
  "py_str_contains p [] = (p = [])"
| "py_str_contains p (c # cs) = (starts_with p (c # cs) \<or> py_str_contains p cs)"

text \<open>\<^verbatim>\<open>k in v\<close> for a string \<open>k\<close>: key of a dict, element of a list, substring of a string.\<close>

fun py_in :: "string \<Rightarrow> json \<Rightarrow> py_exn + bool" where
  "py_in k (JObj kvs) = Inr (k \<in> set (map fst kvs))"
| "py_in k (JArr xs) = Inr (JStr k \<in> set xs)"
| "py_in k (JStr s) = Inr (py_str_contains k s)"
| "py_in k v =
     Inl (Exn TypeError (''argument of type '' @ quoted (py_type_name v) @ '' is not iterable''))"

text \<open>\<^verbatim>\<open>list(v.keys())\<close>.\<close>

fun py_keys :: "json \<Rightarrow> py_exn + string list" where
  "py_keys (JObj kvs) = Inr (map fst kvs)"
| "py_keys v = Inl (no_attribute v ''keys'')"

text \<open>\<^verbatim>\<open>v[k]\<close> for a string \<open>k\<close>; \<^verbatim>\<open>str(KeyError(k))\<close> is the key in quotes.\<close>

fun py_getitem :: "json \<Rightarrow> string \<Rightarrow> py_exn + json" where
  "py_getitem (JObj kvs) k =
     (case map_of kvs k of
        None \<Rightarrow> Inl (Exn KeyError (quoted k))
      | Some v \<Rightarrow> Inr v)"
| "py_getitem (JStr s) k = Inl (Exn TypeError (''string indices must be integers, not '' @ quoted ''str''))"
| "py_getitem (JArr xs) k = Inl (Exn TypeError ''list indices must be integers or slices, not str'')"
| "py_getitem v k =
     Inl (Exn TypeError (quoted (py_type_name v) @ '' object is not subscriptable''))"

text \<open>\<^verbatim>\<open>v.get(k, d)\<close>: only a dict has it.\<close>

fun py_get :: "json \<Rightarrow> string \<Rightarrow> json \<Rightarrow> py_exn + json" where
  "py_get (JObj kvs) k d = Inr (case map_of kvs k of None \<Rightarrow> d | Some v \<Rightarrow> v)"
| "py_get v k d = Inl (no_attribute v ''get'')"

text \<open>\<^verbatim>\<open>s.split(sep)\<close> for a one-character separator: every separator cuts.\<close>

fun py_split :: "char \<Rightarrow> string \<Rightarrow> string list" where
  "py_split sep [] = [[]]"
| "py_split sep (c # cs) =
     (if c = sep then [] # py_split sep cs
      else (case py_split sep cs of [] \<Rightarrow> [[c]] | w # ws \<Rightarrow> (c # w) # ws))"

text \<open>\<^verbatim>\<open>xs[1]\<close> on a list.\<close>

fun py_index1 :: "'a list \<Rightarrow> py_exn + 'a" where
  "py_index1 (x # y # ys) = Inr y"
| "py_index1 xs = Inl (Exn IndexError ''list index out of range'')"

text \<open>
  Lower-casing of ASCII text, byte by byte. On a string of ASCII characters this is
  what \<^verbatim>\<open>str.lower()\<close> returns; it is used for the concrete environments only.
\<close>

definition char_lower :: "char \<Rightarrow> char" where
  "char_lower c =
     (case map_of (zip ''ABCDEFGHIJKLMNOPQRSTUVWXYZ'' ''abcdefghijklmnopqrstuvwxyz'') c of
        None \<Rightarrow> c
      | Some l \<Rightarrow> l)"

text \<open>
  \<^verbatim>\<open>int(x)\<close> on an exact number: truncation towards zero. It is used for the
  concrete environments only, on clock readings for which the double-precision result
  of the handler's expression is the exact one.
\<close>

definition py_int :: "rat \<Rightarrow> int" where
  "py_int q = (if 0 \<le> q then \<lfloor>q\<rfloor> else \<lceil>q\<rceil>)"

section \<open>Stripping the data-URI prefix (lines 105 and 114)\<close>

text \<open>
  \<^verbatim>\<open>x.split(",")[1] if "," in x else x\<close>, for a string \<open>x\<close>.
\<close>

definition strip_data_uri_prefix :: "string \<Rightarrow> py_exn + string" where
  "strip_data_uri_prefix x =
     (if py_str_contains '','' x then py_index1 (py_split (CHR '','') x) else Inr x)"

text \<open>
  The same expression on whatever value the body holds under the key: on a list or a
  dict \<^verbatim>\<open>in\<close> is membership, and a true answer leads to \<^verbatim>\<open>.split\<close>, which only a
  string has.
\<close>

fun strip_field :: "json \<Rightarrow> py_exn + json" where
  "strip_field (JStr x) =
     (case strip_data_uri_prefix x of Inl e \<Rightarrow> Inl e | Inr r \<Rightarrow> Inr (JStr r))"
| "strip_field v =
     (case py_in '','' v of
        Inl e \<Rightarrow> Inl e
      | Inr True \<Rightarrow> Inl (no_attribute v ''split'')
      | Inr False \<Rightarrow> Inr v)"

section \<open>What the handler gets from outside\<close>

text \<open>
  The interpreter's library (\<^verbatim>\<open>uuid\<close>, \<^verbatim>\<open>time\<close>, \<^verbatim>\<open>json\<close>, \<^verbatim>\<open>repr\<close>), the
  helper modules \<^verbatim>\<open>utils\<close> and \<^verbatim>\<open>titan_handler\<close> (imported by the handler, their
  code is not part of the source file) and the remote generation service are parameters
  of the model. A call that can raise returns \<open>py_exn + _\<close>.

  \<^item> \<open>clock n\<close> is what the \<open>n\<close>-th call of \<^verbatim>\<open>time.time()\<close> of an invocation
    returns, in seconds; a double is a rational number.
  \<^item> \<open>ms_since t0 now\<close> is \<^verbatim>\<open>int((now - t0) * 1000)\<close> as the interpreter computes it
    in double precision, with its rounding.
  \<^item> \<open>str_lower s\<close> is \<^verbatim>\<open>s.lower()\<close> of the interpreter, which knows the capitals
    of every script.
  \<^item> \<open>invoke_model body model_id\<close> stands for lines 197 to 204 and line 210: \<open>Inl\<close>
    when creating the session or the client or the call itself raises; otherwise what
    reading the returned body and decoding it as JSON gives, an exception or a value.
  \<^item> \<open>sink_ok n\<close> tells whether the audit table accepts the \<open>n\<close>-th record offered
    to it.
\<close>

record env =
  uuid4 :: string
  clock :: "nat \<Rightarrow> rat"
  ms_since :: "rat \<Rightarrow> rat \<Rightarrow> int"
  str_lower :: "string \<Rightarrow> string"
  json_loads :: "string \<Rightarrow> py_exn + json"
  repr_str :: "string \<Rightarrow> string"
  get_cors_headers :: "(string \<times> string) list"
  calculate_base64_size :: "json \<Rightarrow> py_exn + int"
  calculate_output_images_size :: "json \<Rightarrow> py_exn + int"
  prepare_titan_request :: "json \<Rightarrow> json \<Rightarrow> json \<Rightarrow> json \<Rightarrow> py_exn + string"
  invoke_model :: "string \<Rightarrow> string \<Rightarrow> py_exn + (py_exn + json)"
  sink_ok :: "nat \<Rightarrow> bool"

record audit_record =
  request_id :: string
  model_id :: string
  prompt :: json
  mode :: json
  image_size :: int
  mask_size :: int
  output_size :: int
  generation_time_ms :: int
  success :: bool
  error_message :: "string option"

text \<open>
  The effects of one invocation: how often the clock was read, the records handed to
  \<^verbatim>\<open>log_to_dynamodb\<close> in order, and the records the table holds.
\<close>

record world =
  time_reads :: nat
  log_calls :: "audit_record list"
  table :: "audit_record list"

definition init_world :: world where
  "init_world = \<lparr>time_reads = 0, log_calls = [], table = []\<rparr>"

definition time_time :: "env \<Rightarrow> world \<Rightarrow> rat \<times> world" where
  "time_time env w = (clock env (time_reads w), w\<lparr>time_reads := Suc (time_reads w)\<rparr>)"

text \<open>
  Modelled from the spec: \<^verbatim>\<open>log_to_dynamodb\<close> of the module \<^verbatim>\<open>utils\<close>, whose code is
  missing. The spec has the Outcome Logger record one audit record per call in an
  append-only sink, and has a failure of the sink caught and reported to the process
  output without reaching the caller. So the call always returns; the record is stored
  when the sink accepts it.
\<close>

definition log_to_dynamodb :: "env \<Rightarrow> audit_record \<Rightarrow> world \<Rightarrow> world" where
  "log_to_dynamodb env r w =
     w\<lparr>log_calls := log_calls w @ [r],
       table := (if sink_ok env (length (log_calls w)) then table w @ [r] else table w)\<rparr>"

section \<open>The handler\<close>

text \<open>
  The response is the dict the handler returns; \<open>body\<close> is the dict given to
  \<^verbatim>\<open>json.dumps\<close>, with its keys in order; every value put into it is decoded JSON or
  a string, so \<^verbatim>\<open>json.dumps\<close> itself does not raise. The \<^verbatim>\<open>print\<close> calls are left
  out, except for the expressions inside them that can raise (line 85). Those of line 41
  and line 69 print decoded JSON and a slice of a string.
\<close>

record response =
  statusCode :: int
  headers :: "(string \<times> string) list"
  body :: "(string \<times> json) list"

definition respond :: "env \<Rightarrow> int \<Rightarrow> (string \<times> json) list \<Rightarrow> response" where
  "respond env code b = \<lparr>statusCode = code, headers = get_cors_headers env, body = b\<rparr>"

text \<open>Running the next statement unless the last one raised.\<close>

fun bind_exn :: "'e + 'a \<Rightarrow> ('a \<Rightarrow> 'e + 'b) \<Rightarrow> 'e + 'b" where
  "bind_exn (Inl e) f = Inl e"
| "bind_exn (Inr x) f = f x"

subsection \<open>Lines 44 to 81: the request body\<close>

text \<open>
  The body of the \<^verbatim>\<open>try\<close>: \<open>Inl\<close> an exception raised in it, \<open>Inr (Inl r)\<close> an early
  \<^verbatim>\<open>return r\<close>, \<open>Inr (Inr b)\<close> falling through with \<^verbatim>\<open>body = b\<close>.
\<close>

definition parse_body_try :: "env \<Rightarrow> json \<Rightarrow> py_exn + (response + json)" where
  "parse_body_try env event =
     bind_exn (py_in ''body'' event) (\<lambda>has_body.
       if \<not> has_body then
         bind_exn (py_keys event) (\<lambda>ks.
           Inr (Inl (respond env 400
             [(''error'', JStr ''Missing body in request''), (''event_keys'', JArr (map JStr ks))])))
       else
         bind_exn (py_getitem event ''body'') (\<lambda>b.
           case b of
             JObj kvs \<Rightarrow> Inr (Inr b)
           | JStr s \<Rightarrow> bind_exn (json_loads env s) (\<lambda>v. Inr (Inr v))
           | _ \<Rightarrow> Inr (Inl (respond env 400
                   [(''error'', JStr (''Invalid body type: <class '' @ quoted (py_type_name b) @ ''>''))]))))"

definition parse_body :: "env \<Rightarrow> json \<Rightarrow> response + json" where
  "parse_body env event =
     (case parse_body_try env event of
        Inr r \<Rightarrow> r
      | Inl e \<Rightarrow>
          if exn_class_of e = JSONDecodeError then
            Inl (respond env 400 [(''error'', JStr (''Invalid JSON in request body: '' @ str_exn e))])
          else
            Inl (respond env 400 [(''error'', JStr (''Error parsing request body: '' @ str_exn e))]))"

subsection \<open>Lines 84 to 136: the required parameters\<close>

record params =
  prompt_content :: json
  painting_mode :: json
  mask_base64 :: json
  image_base64 :: json

definition extract_try :: "env \<Rightarrow> json \<Rightarrow> py_exn + (response + params)" where
  "extract_try env b =
     bind_exn (py_keys b) (\<lambda>printed.
     bind_exn (py_in ''prompt'' b) (\<lambda>has_prompt.
       if \<not> has_prompt then
         bind_exn (py_keys b) (\<lambda>ks.
           Inr (Inl (respond env 400
             [(''error'', JStr (''Missing '' @ dquoted ''prompt'' @ '' field'')), (''received_keys'', JArr (map JStr ks))])))
       else
         bind_exn (py_getitem b ''prompt'') (\<lambda>pr.
         bind_exn (py_getitem pr ''text'') (\<lambda>text.
         bind_exn (py_getitem b ''prompt'') (\<lambda>pr'.
         bind_exn (py_getitem pr' ''mode'') (\<lambda>md.
         bind_exn (py_in ''mask'' b) (\<lambda>has_mask.
           if \<not> has_mask then
             Inr (Inl (respond env 400 [(''error'', JStr (''Missing '' @ dquoted ''mask'' @ '' field''))]))
           else
             bind_exn (py_getitem b ''mask'') (\<lambda>m.
             bind_exn (strip_field m) (\<lambda>mb.
             bind_exn (py_in ''base_image'' b) (\<lambda>has_image.
               if \<not> has_image then
                 Inr (Inl (respond env 400 [(''error'', JStr (''Missing '' @ dquoted ''base_image'' @ '' field''))]))
               else
                 bind_exn (py_getitem b ''base_image'') (\<lambda>i.
                 bind_exn (strip_field i) (\<lambda>ib.
                   Inr (Inr \<lparr>prompt_content = text, painting_mode = md,
                             mask_base64 = mb, image_base64 = ib\<rparr>)))))))))))))"

text \<open>\<^verbatim>\<open>str(b.keys())\<close>, with the interpreter's \<^verbatim>\<open>repr\<close> of each key.\<close>

fun join_comma :: "string list \<Rightarrow> string" where
  "join_comma [] = []"
| "join_comma [x] = x"
| "join_comma (x # y # ys) = x @ '', '' @ join_comma (y # ys)"

definition str_dict_keys :: "env \<Rightarrow> json \<Rightarrow> py_exn + string" where
  "str_dict_keys env b =
     bind_exn (py_keys b) (\<lambda>ks. Inr (''dict_keys(['' @ join_comma (map (repr_str env) ks) @ ''])''))"

text \<open>
  With the three \<^verbatim>\<open>except\<close> clauses. The outer \<open>Inl\<close> is an exception raised inside a
  clause, which nothing catches.
\<close>

definition extract_parameters :: "env \<Rightarrow> json \<Rightarrow> py_exn + (response + params)" where
  "extract_parameters env b =
     (case extract_try env b of
        Inr r \<Rightarrow> Inr r
      | Inl e \<Rightarrow>
          if exn_class_of e = KeyError then
            bind_exn (str_dict_keys env b) (\<lambda>ks.
              Inr (Inl (respond env 400
                [(''error'', JStr (''Missing required field: '' @ str_exn e)),
                 (''body_structure'', JStr ks)])))
          else if exn_class_of e = IndexError then
            Inr (Inl (respond env 400 [(''error'', JStr ''Malformed base64 image data'')]))
          else
            Inr (Inl (respond env 400
              [(''error'', JStr (''Error extracting parameters: '' @ str_exn e))])))"

subsection \<open>Lines 139 to 144: the model and the input sizes\<close>

text \<open>None of these four statements is inside a \<^verbatim>\<open>try\<close>.\<close>

record resolved =
  model :: string
  canvas_config :: json
  image_size_in :: int
  mask_size_in :: int

text \<open>\<^verbatim>\<open>v.lower()\<close>: only a string has it.\<close>

fun py_lower :: "env \<Rightarrow> json \<Rightarrow> py_exn + string" where
  "py_lower env (JStr s) = Inr (str_lower env s)"
| "py_lower env v = Inl (no_attribute v ''lower'')"

definition resolve_model :: "env \<Rightarrow> json \<Rightarrow> py_exn + string" where
  "resolve_model env b = bind_exn (py_get b ''model'' (JStr ''titan'')) (py_lower env)"

definition resolve :: "env \<Rightarrow> json \<Rightarrow> py_exn + resolved" where
  "resolve env b =
     bind_exn (resolve_model env b) (\<lambda>m.
     bind_exn (py_get b ''canvas_config'' (JObj [])) (\<lambda>cc.
     bind_exn (py_getitem b ''base_image'') (\<lambda>i.
     bind_exn (calculate_base64_size env i) (\<lambda>isz.
     bind_exn (py_getitem b ''mask'') (\<lambda>k.
     bind_exn (calculate_base64_size env k) (\<lambda>msz.
       Inr \<lparr>model = m, canvas_config = cc, image_size_in = isz, mask_size_in = msz\<rparr>))))))"

subsection \<open>Lines 147 to 166: the model is not supported\<close>

definition unsupported_model ::
  "env \<Rightarrow> string \<Rightarrow> rat \<Rightarrow> params \<Rightarrow> resolved \<Rightarrow> world \<Rightarrow> response \<times> world" where
  "unsupported_model env rid start_time p r w =
     (let error_msg = ''Unsupported model: '' @ model r @ ''. Supported models: titan'';
          (now, w1) = time_time env w;
          w2 = log_to_dynamodb env
                 \<lparr>request_id = rid, model_id = ''unknown'',
                  prompt = prompt_content p, mode = painting_mode p,
                  image_size = image_size_in r, mask_size = mask_size_in r,
                  output_size = 0, generation_time_ms = ms_since env start_time now,
                  success = False, error_message = Some error_msg\<rparr> w1
      in (respond env 400 [(''error'', JStr error_msg)], w2))"

subsection \<open>Lines 169 to 191: building the request of the model\<close>

text \<open>
  \<^verbatim>\<open>model_id\<close> is assigned after \<^verbatim>\<open>prepare_titan_request\<close> has returned, so in the
  \<^verbatim>\<open>except\<close> clause it is never among the locals and the record gets \<^verbatim>\<open>'unknown'\<close>.
\<close>

definition titan_model_id :: string where
  "titan_model_id = ''amazon.titan-image-generator-v2:0''"

definition build_failed ::
  "env \<Rightarrow> string \<Rightarrow> rat \<Rightarrow> params \<Rightarrow> resolved \<Rightarrow> py_exn \<Rightarrow> world \<Rightarrow> response \<times> world" where
  "build_failed env rid start_time p r e w =
     (let error_msg = ''Error preparing request for '' @ model r @ '': '' @ str_exn e;
          (now, w1) = time_time env w;
          w2 = log_to_dynamodb env
                 \<lparr>request_id = rid, model_id = ''unknown'',
                  prompt = prompt_content p, mode = painting_mode p,
                  image_size = image_size_in r, mask_size = mask_size_in r,
                  output_size = 0, generation_time_ms = ms_since env start_time now,
                  success = False, error_message = Some error_msg\<rparr> w1
      in (respond env 400 [(''error'', JStr error_msg)], w2))"

subsection \<open>Lines 194 to 267: the call of the generation service\<close>

text \<open>The body of the \<^verbatim>\<open>try\<close>, lines 195 to 239.\<close>

definition invoke_try ::
  "env \<Rightarrow> string \<Rightarrow> params \<Rightarrow> resolved \<Rightarrow> string \<Rightarrow> string \<Rightarrow> world
     \<Rightarrow> (py_exn + response) \<times> world" where
  "invoke_try env rid p r request_body mid w =
     (let (bedrock_start_time, w1) = time_time env w in
      case invoke_model env request_body mid of
        Inl e \<Rightarrow> (Inl e, w1)
      | Inr response_bedrock \<Rightarrow>
          (let (now, w2) = time_time env w1;
               gen_ms = ms_since env bedrock_start_time now
           in case response_bedrock of
                Inl e \<Rightarrow> (Inl e, w2)
              | Inr response_output \<Rightarrow>
                  (case py_get response_output ''images'' JNull of
                     Inl e \<Rightarrow> (Inl e, w2)
                   | Inr images \<Rightarrow>
                       (case calculate_output_images_size env images of
                          Inl e \<Rightarrow> (Inl e, w2)
                        | Inr out_size \<Rightarrow>
                            (let w3 = log_to_dynamodb env
                                        \<lparr>request_id = rid, model_id = mid,
                                         prompt = prompt_content p, mode = painting_mode p,
                                         image_size = image_size_in r, mask_size = mask_size_in r,
                                         output_size = out_size, generation_time_ms = gen_ms,
                                         success = True, error_message = None\<rparr> w2
                             in (Inr (respond env 200
                                       [(''images'', images),
                                        (''model_used'', JStr (model r)),
                                        (''request_id'', JStr rid),
                                        (''generation_time_ms'', JInt gen_ms)]), w3))))))"

text \<open>The \<^verbatim>\<open>except\<close> clause, lines 241 to 267.\<close>

definition invoke_failed ::
  "env \<Rightarrow> string \<Rightarrow> rat \<Rightarrow> params \<Rightarrow> resolved \<Rightarrow> string \<Rightarrow> py_exn \<Rightarrow> world
     \<Rightarrow> response \<times> world" where
  "invoke_failed env rid start_time p r mid e w =
     (let error_msg = str_exn e;
          (now, w1) = time_time env w;
          gen_ms = ms_since env start_time now;
          w2 = log_to_dynamodb env
                 \<lparr>request_id = rid, model_id = mid,
                  prompt = prompt_content p, mode = painting_mode p,
                  image_size = image_size_in r, mask_size = mask_size_in r,
                  output_size = 0, generation_time_ms = gen_ms,
                  success = False, error_message = Some error_msg\<rparr> w1
      in (respond env 500
            [(''error'', JStr error_msg),
             (''model_attempted'', JStr (model r)),
             (''request_id'', JStr rid)], w2))"

definition invoke ::
  "env \<Rightarrow> string \<Rightarrow> rat \<Rightarrow> params \<Rightarrow> resolved \<Rightarrow> string \<Rightarrow> string \<Rightarrow> world
     \<Rightarrow> response \<times> world" where
  "invoke env rid start_time p r request_body mid w =
     (case invoke_try env rid p r request_body mid w of
        (Inr resp, w') \<Rightarrow> (resp, w')
      | (Inl e, w') \<Rightarrow> invoke_failed env rid start_time p r mid e w')"

subsection \<open>Lines 147 to 267, after the parameters, the model and the sizes are known\<close>

definition generate ::
  "env \<Rightarrow> string \<Rightarrow> rat \<Rightarrow> params \<Rightarrow> resolved \<Rightarrow> world \<Rightarrow> response \<times> world" where
  "generate env rid start_time p r w =
     (if model r \<notin> set [''titan''] then unsupported_model env rid start_time p r w
      else
        case prepare_titan_request env (prompt_content p) (painting_mode p)
               (mask_base64 p) (image_base64 p) of
          Inl e \<Rightarrow> build_failed env rid start_time p r e w
        | Inr request_body \<Rightarrow> invoke env rid start_time p r request_body titan_model_id w)"

subsection \<open>The whole handler\<close>

text \<open>
  \<open>Inl e\<close>: the exception \<open>e\<close> leaves the handler. \<open>Inr r\<close>: the handler returns \<open>r\<close>.
\<close>

definition lambda_handler :: "env \<Rightarrow> json \<Rightarrow> (py_exn + response) \<times> world" where
  "lambda_handler env event =
     (let rid = uuid4 env;
          (start_time, w) = time_time env init_world
      in case parse_body env event of
           Inl resp \<Rightarrow> (Inr resp, w)
         | Inr b \<Rightarrow>
             (case extract_parameters env b of
                Inl e \<Rightarrow> (Inl e, w)
              | Inr (Inl resp) \<Rightarrow> (Inr resp, w)
              | Inr (Inr p) \<Rightarrow>
                  (case resolve env b of
                     Inl e \<Rightarrow> (Inl e, w)
                   | Inr r \<Rightarrow>
                       (case generate env rid start_time p r w of
                          (resp, w') \<Rightarrow> (Inr resp, w')))))"

section \<open>Names used in the statements\<close>

text \<open>The effects after line 38: the clock has been read once, nothing is logged.\<close>

definition started :: world where
  "started = \<lparr>time_reads = 1, log_calls = [], table = []\<rparr>"

text \<open>The record of the three failing calls of the logger, and the one of the call at line 217.\<close>

definition failure_record ::
  "string \<Rightarrow> string \<Rightarrow> params \<Rightarrow> resolved \<Rightarrow> int \<Rightarrow> string \<Rightarrow> audit_record" where
  "failure_record rid mid p r ms msg =
     \<lparr>request_id = rid, model_id = mid, prompt = prompt_content p, mode = painting_mode p,
      image_size = image_size_in r, mask_size = mask_size_in r, output_size = 0,
      generation_time_ms = ms, success = False, error_message = Some msg\<rparr>"

definition success_record ::
  "string \<Rightarrow> string \<Rightarrow> params \<Rightarrow> resolved \<Rightarrow> int \<Rightarrow> int \<Rightarrow> audit_record" where
  "success_record rid mid p r out_size ms =
     \<lparr>request_id = rid, model_id = mid, prompt = prompt_content p, mode = painting_mode p,
      image_size = image_size_in r, mask_size = mask_size_in r, output_size = out_size,
      generation_time_ms = ms, success = True, error_message = None\<rparr>"

subsection \<open>Concrete environments and requests\<close>

text \<open>
  An environment in which everything works: the clock reads 10, 12, 13 and then 17
  seconds, the sizes are 3 and 6 bytes, the service returns one image. Its readings are
  whole seconds and its texts are ASCII, so \<open>py_int\<close> and \<open>char_lower\<close> give what the
  interpreter gives. \<open>json_loads\<close> rejects every
  text, which is enough here since the events below carry their body as a dict.
\<close>

definition demo_env :: env where
  "demo_env =
     \<lparr>uuid4 = ''3f2b8c1e-7d4a-4e0b-9c55-0a1b2c3d4e5f'',
      clock = (\<lambda>n. if n = 0 then 10 else if n = 1 then 12 else if n = 2 then 13 else 17),
      ms_since = (\<lambda>t0 now. py_int ((now - t0) * 1000)),
      str_lower = map char_lower,
      json_loads = (\<lambda>s. Inl (Exn JSONDecodeError ''Expecting value: line 1 column 1 (char 0)'')),
      repr_str = quoted,
      get_cors_headers = [(''Access-Control-Allow-Origin'', ''*'')],
      calculate_base64_size = (\<lambda>v. Inr 3),
      calculate_output_images_size = (\<lambda>v. Inr 6),
      prepare_titan_request = (\<lambda>t m k i. Inr ''request''),
      invoke_model = (\<lambda>b m. Inr (Inr (JObj [(''images'', JArr [JStr ''QUJDREVG''])]))),
      sink_ok = (\<lambda>n. True)\<rparr>"

text \<open>The same with a generation service that raises, and with an audit table that is down.\<close>

definition failing_env :: env where
  "failing_env = demo_env\<lparr>invoke_model := (\<lambda>b m. Inl (Exn OtherError ''connection reset''))\<rparr>"

definition sink_down_env :: env where
  "sink_down_env = demo_env\<lparr>sink_ok := (\<lambda>n. False)\<rparr>"

text \<open>
  Failures after the call has returned: an answer that is not JSON, an answer that is a
  list, and a size helper that raises. Last, a request builder that raises.
\<close>

definition garbled_env :: env where
  "garbled_env =
     demo_env\<lparr>invoke_model := (\<lambda>b m. Inr (Inl (Exn JSONDecodeError ''Expecting value: line 1 column 1 (char 0)'')))\<rparr>"

definition list_answer_env :: env where
  "list_answer_env = demo_env\<lparr>invoke_model := (\<lambda>b m. Inr (Inr (JArr [])))\<rparr>"

definition size_fail_env :: env where
  "size_fail_env =
     demo_env\<lparr>calculate_output_images_size := (\<lambda>v. Inl (Exn OtherError ''Incorrect padding''))\<rparr>"

definition build_fail_env :: env where
  "build_fail_env =
     demo_env\<lparr>prepare_titan_request := (\<lambda>t m k i. Inl (Exn OtherError ''Invalid mode''))\<rparr>"

definition valid_body :: "(string \<times> json) list" where
  "valid_body =
     [(''prompt'', JObj [(''text'', JStr ''a cat''), (''mode'', JStr ''INPAINTING'')]),
      (''mask'', JStr ''data:image/png;base64,AAAA''),
      (''base_image'', JStr ''AAAA'')]"

definition no_mask_body :: "(string \<times> json) list" where
  "no_mask_body =
     [(''prompt'', JObj [(''text'', JStr ''a cat''), (''mode'', JStr ''INPAINTING'')]),
      (''base_image'', JStr ''AAAA'')]"

definition no_image_body :: "(string \<times> json) list" where
  "no_image_body =
     [(''prompt'', JObj [(''text'', JStr ''a cat''), (''mode'', JStr ''INPAINTING'')]),
      (''mask'', JStr ''data:image/png;base64,AAAA'')]"

definition valid_params :: params where
  "valid_params =
     \<lparr>prompt_content = JStr ''a cat'', painting_mode = JStr ''INPAINTING'',
      mask_base64 = JStr ''AAAA'', image_base64 = JStr ''AAAA''\<rparr>"

definition valid_resolved :: resolved where
  "valid_resolved =
     \<lparr>model = ''titan'', canvas_config = JObj [], image_size_in = 3, mask_size_in = 3\<rparr>"

text \<open>The event of a direct invocation: the body is already a dict.\<close>

definition event_of :: "(string \<times> json) list \<Rightarrow> json" where
  "event_of b = JObj [(''body'', JObj b)]"

section \<open>Facts about the string operations\<close>

lemma py_str_contains_single: "py_str_contains [c] s = (c \<in> set s)"
  by (induction s) auto

lemma py_split_nonempty: "py_split sep s \<noteq> []"
  by (induction s) (auto split: list.splits)

lemma py_split_no_sep: "sep \<notin> set s \<Longrightarrow> py_split sep s = [s]"
  by (induction s) auto

lemma py_split_append: "sep \<notin> set p \<Longrightarrow> py_split sep (p @ sep # rest) = p # py_split sep rest"
  by (induction p) auto

lemma py_split_segments: "w \<in> set (py_split sep s) \<Longrightarrow> sep \<notin> set w"
  by (induction s arbitrary: w) (auto split: if_splits list.splits)

lemma strip_no_comma: "CHR '','' \<notin> set x \<Longrightarrow> strip_data_uri_prefix x = Inr x"
  by (simp add: strip_data_uri_prefix_def py_str_contains_single)

lemma strip_one_comma:
  "CHR '','' \<notin> set p \<Longrightarrow> CHR '','' \<notin> set d \<Longrightarrow>
   strip_data_uri_prefix (p @ CHR '','' # d) = Inr d"
  by (simp add: strip_data_uri_prefix_def py_str_contains_single py_split_append py_split_no_sep)

lemma strip_more_commas:
  "CHR '','' \<notin> set p \<Longrightarrow> CHR '','' \<notin> set d \<Longrightarrow>
   strip_data_uri_prefix (p @ CHR '','' # d @ CHR '','' # rest) = Inr d"
  by (simp add: strip_data_uri_prefix_def py_str_contains_single py_split_append)

text \<open>The expression never raises on a string, and what it returns has no comma left.\<close>

lemma strip_result: "\<exists>r. strip_data_uri_prefix x = Inr r \<and> CHR '','' \<notin> set r"
proof (cases "CHR '','' \<in> set x")
  case False
  then show ?thesis by (simp add: strip_no_comma)
next
  case True
  then obtain p rest where x: "x = p @ CHR '','' # rest" and p: "CHR '','' \<notin> set p"
    by (meson split_list_first)
  obtain w ws where ws: "py_split (CHR '','') rest = w # ws"
    using py_split_nonempty by (cases "py_split (CHR '','') rest") auto
  have "CHR '','' \<notin> set w"
    using py_split_segments [of w "CHR '',''" rest] ws by simp
  then show ?thesis
    using x p ws by (simp add: strip_data_uri_prefix_def py_str_contains_single py_split_append)
qed

section \<open>Facts about the stages of the handler\<close>

lemma bind_exn_InrE:
  assumes "bind_exn m f = Inr y"
  obtains x where "m = Inr x" and "f x = Inr y"
  using assms by (cases m) auto

lemma log_to_dynamodb_log_calls: "log_calls (log_to_dynamodb env r w) = log_calls w @ [r]"
  by (simp add: log_to_dynamodb_def)

lemma log_to_dynamodb_table:
  "table (log_to_dynamodb env r w) =
     (if sink_ok env (length (log_calls w)) then table w @ [r] else table w)"
  by (simp add: log_to_dynamodb_def)

lemma started_simps:
  "time_reads started = 1" "log_calls started = []" "table started = []"
  by (simp_all add: started_def)

subsection \<open>The handler, stage by stage\<close>

lemma lambda_handler_unfold:
  "lambda_handler env event =
     (case parse_body env event of
        Inl resp \<Rightarrow> (Inr resp, started)
      | Inr b \<Rightarrow>
          (case extract_parameters env b of
             Inl e \<Rightarrow> (Inl e, started)
           | Inr (Inl resp) \<Rightarrow> (Inr resp, started)
           | Inr (Inr p) \<Rightarrow>
               (case resolve env b of
                  Inl e \<Rightarrow> (Inl e, started)
                | Inr r \<Rightarrow>
                    (Inr (fst (generate env (uuid4 env) (clock env 0) p r started)),
                     snd (generate env (uuid4 env) (clock env 0) p r started)))))"
  by (simp add: lambda_handler_def time_time_def init_world_def started_def
           split: sum.splits prod.splits)

lemma handler_parse_rejected:
  "parse_body env event = Inl resp \<Longrightarrow> lambda_handler env event = (Inr resp, started)"
  by (simp add: lambda_handler_unfold)

lemma handler_extract_rejected:
  "parse_body env event = Inr b \<Longrightarrow> extract_parameters env b = Inr (Inl resp) \<Longrightarrow>
   lambda_handler env event = (Inr resp, started)"
  by (simp add: lambda_handler_unfold)

lemma handler_resolve_raised:
  "parse_body env event = Inr b \<Longrightarrow> extract_parameters env b = Inr (Inr p) \<Longrightarrow>
   resolve env b = Inl e \<Longrightarrow> lambda_handler env event = (Inl e, started)"
  by (simp add: lambda_handler_unfold)

lemma handler_generate:
  "parse_body env event = Inr b \<Longrightarrow> extract_parameters env b = Inr (Inr p) \<Longrightarrow>
   resolve env b = Inr r \<Longrightarrow>
   lambda_handler env event =
     (Inr (fst (generate env (uuid4 env) (clock env 0) p r started)),
      snd (generate env (uuid4 env) (clock env 0) p r started))"
  by (simp add: lambda_handler_unfold)

subsection \<open>The request body\<close>

lemma parse_body_dict: "parse_body env (event_of kvs) = Inr (JObj kvs)"
  by (simp add: parse_body_def parse_body_try_def event_of_def)

lemma parse_body_try_early:
  "parse_body_try env event = Inr (Inl resp) \<Longrightarrow>
   statusCode resp = 400 \<and> ''request_id'' \<notin> fst ` set (body resp)"
  unfolding parse_body_try_def
  by (elim bind_exn_InrE) (auto simp: respond_def split: if_splits json.splits elim!: bind_exn_InrE)

lemma parse_body_rejected:
  "parse_body env event = Inl resp \<Longrightarrow>
   statusCode resp = 400 \<and> ''request_id'' \<notin> fst ` set (body resp)"
proof (cases "parse_body_try env event")
  case (Inl e)
  assume "parse_body env event = Inl resp"
  with Inl show ?thesis
    by (auto simp: parse_body_def respond_def split: if_splits)
next
  case (Inr r)
  assume "parse_body env event = Inl resp"
  with Inr have "parse_body_try env event = Inr (Inl resp)"
    by (simp add: parse_body_def)
  then show ?thesis by (rule parse_body_try_early)
qed

subsection \<open>The required parameters\<close>

lemma extract_try_early:
  "extract_try env b = Inr (Inl resp) \<Longrightarrow>
   statusCode resp = 400 \<and> ''request_id'' \<notin> fst ` set (body resp)"
  unfolding extract_try_def
  by (elim bind_exn_InrE | simp add: respond_def split: if_splits | force simp: respond_def)+

lemma extract_try_params:
  "extract_try env b = Inr (Inr p) \<Longrightarrow>
   py_in ''prompt'' b = Inr True \<and> py_in ''mask'' b = Inr True \<and>
   py_in ''base_image'' b = Inr True \<and>
   (\<exists>pr. py_getitem b ''prompt'' = Inr pr \<and> py_getitem pr ''text'' = Inr (prompt_content p) \<and>
         py_getitem pr ''mode'' = Inr (painting_mode p)) \<and>
   (\<exists>m. py_getitem b ''mask'' = Inr m \<and> strip_field m = Inr (mask_base64 p)) \<and>
   (\<exists>i. py_getitem b ''base_image'' = Inr i \<and> strip_field i = Inr (image_base64 p))"
  unfolding extract_try_def
  by (elim bind_exn_InrE | simp split: if_splits | force)+

text \<open>A \<^verbatim>\<open>KeyError\<close> can only come from a body that is a dict.\<close>

lemma extract_try_raised_dict:
  "extract_try env b = Inl e \<Longrightarrow> exn_class_of e = KeyError \<Longrightarrow> \<exists>kvs. b = JObj kvs"
proof (cases b)
  case (JObj kvs)
  then show ?thesis by simp
qed (auto simp: extract_try_def no_attribute_def)

text \<open>So \<^verbatim>\<open>str(body.keys())\<close> in the first \<^verbatim>\<open>except\<close> clause never raises.\<close>

lemma extract_parameters_returns: "extract_parameters env b \<noteq> Inl e"
proof (cases "extract_try env b")
  case (Inr r)
  then show ?thesis by (simp add: extract_parameters_def)
next
  case (Inl e')
  show ?thesis
  proof (cases "exn_class_of e' = KeyError")
    case True
    with Inl obtain kvs where "b = JObj kvs"
      using extract_try_raised_dict by blast
    with Inl True show ?thesis
      by (simp add: extract_parameters_def str_dict_keys_def)
  next
    case False
    with Inl show ?thesis by (simp add: extract_parameters_def)
  qed
qed

lemma extract_parameters_rejected:
  "extract_parameters env b = Inr (Inl resp) \<Longrightarrow>
   statusCode resp = 400 \<and> ''request_id'' \<notin> fst ` set (body resp)"
proof (cases "extract_try env b")
  case (Inr r)
  assume "extract_parameters env b = Inr (Inl resp)"
  with Inr have "extract_try env b = Inr (Inl resp)"
    by (simp add: extract_parameters_def)
  then show ?thesis by (rule extract_try_early)
next
  case (Inl e)
  assume "extract_parameters env b = Inr (Inl resp)"
  with Inl show ?thesis
    by (auto simp: extract_parameters_def respond_def split: if_splits elim!: bind_exn_InrE)
qed

lemma extract_parameters_params:
  "extract_parameters env b = Inr (Inr p) \<Longrightarrow> extract_try env b = Inr (Inr p)"
  by (cases "extract_try env b")
     (auto simp: extract_parameters_def split: if_splits elim!: bind_exn_InrE)

lemma extract_missing_key:
  assumes "''prompt'' \<notin> fst ` set kvs \<or> ''mask'' \<notin> fst ` set kvs \<or> ''base_image'' \<notin> fst ` set kvs"
  shows "\<exists>resp. extract_parameters env (JObj kvs) = Inr (Inl resp) \<and> statusCode resp = 400"
proof (cases "extract_parameters env (JObj kvs)")
  case (Inl e)
  then show ?thesis using extract_parameters_returns by blast
next
  case (Inr x)
  show ?thesis
  proof (cases x)
    case (Inl resp)
    with Inr show ?thesis using extract_parameters_rejected by blast
  next
    case (Inr p)
    with \<open>extract_parameters env (JObj kvs) = Inr x\<close>
    have "extract_try env (JObj kvs) = Inr (Inr p)"
      by (simp add: extract_parameters_params)
    from extract_try_params [OF this] assms show ?thesis by auto
  qed
qed

lemma map_of_key: "map_of kvs k = Some v \<Longrightarrow> k \<in> fst ` set kvs"
  by (metis map_of_eq_None_iff option.distinct(1))

lemma extract_no_prompt:
  "''prompt'' \<notin> fst ` set kvs \<Longrightarrow>
   extract_parameters env (JObj kvs) =
     Inr (Inl (respond env 400
       [(''error'', JStr (''Missing '' @ dquoted ''prompt'' @ '' field'')),
        (''received_keys'', JArr (map JStr (map fst kvs)))]))"
  by (simp add: extract_parameters_def extract_try_def)

lemma extract_no_mask:
  "map_of kvs ''prompt'' = Some (JObj pr) \<Longrightarrow> map_of pr ''text'' = Some t \<Longrightarrow>
   map_of pr ''mode'' = Some m \<Longrightarrow> ''mask'' \<notin> fst ` set kvs \<Longrightarrow>
   extract_parameters env (JObj kvs) =
     Inr (Inl (respond env 400 [(''error'', JStr (''Missing '' @ dquoted ''mask'' @ '' field''))]))"
  using map_of_key [of kvs "''prompt''"]
  by (simp add: extract_parameters_def extract_try_def)

lemma extract_no_base_image:
  "map_of kvs ''prompt'' = Some (JObj pr) \<Longrightarrow> map_of pr ''text'' = Some t \<Longrightarrow>
   map_of pr ''mode'' = Some m \<Longrightarrow> map_of kvs ''mask'' = Some k \<Longrightarrow>
   strip_field k = Inr kb \<Longrightarrow> ''base_image'' \<notin> fst ` set kvs \<Longrightarrow>
   extract_parameters env (JObj kvs) =
     Inr (Inl (respond env 400
       [(''error'', JStr (''Missing '' @ dquoted ''base_image'' @ '' field''))]))"
  using map_of_key [of kvs "''prompt''"] map_of_key [of kvs "''mask''"]
  by (simp add: extract_parameters_def extract_try_def)

lemma extract_valid_body:
  "map_of extra ''prompt'' = None \<Longrightarrow>
   extract_parameters env (JObj (valid_body @ extra)) = Inr (Inr valid_params)"
  by (simp add: extract_parameters_def extract_try_def valid_body_def valid_params_def
        strip_data_uri_prefix_def)

lemma extract_valid: "extract_parameters env (JObj valid_body) = Inr (Inr valid_params)"
  using extract_valid_body [of "[]" env] by simp

subsection \<open>The model and the sizes\<close>

lemma resolve_model_of: "resolve env b = Inr r \<Longrightarrow> resolve_model env b = Inr (model r)"
  unfolding resolve_def
  by (elim bind_exn_InrE) auto

lemma resolve_valid_body:
  "calculate_base64_size env = (\<lambda>v. Inr 3) \<Longrightarrow> str_lower env = map char_lower \<Longrightarrow>
   resolve env (JObj valid_body) = Inr valid_resolved"
  by (simp add: resolve_def resolve_model_def valid_body_def valid_resolved_def char_lower_def)

lemma resolve_sdxl_body:
  "calculate_base64_size env = (\<lambda>v. Inr 3) \<Longrightarrow> str_lower env = map char_lower \<Longrightarrow>
   resolve env (JObj (valid_body @ [(''model'', JStr ''SDXL'')])) =
     Inr \<lparr>model = ''sdxl'', canvas_config = JObj [], image_size_in = 3, mask_size_in = 3\<rparr>"
  by (simp add: resolve_def resolve_model_def valid_body_def char_lower_def)

lemma resolve_valid_demo: "resolve demo_env (JObj valid_body) = Inr valid_resolved"
  by (rule resolve_valid_body) (simp_all add: demo_env_def)

lemma resolve_valid_failing: "resolve failing_env (JObj valid_body) = Inr valid_resolved"
  by (rule resolve_valid_body) (simp_all add: failing_env_def demo_env_def)

lemma resolve_valid_sink_down: "resolve sink_down_env (JObj valid_body) = Inr valid_resolved"
  by (rule resolve_valid_body) (simp_all add: sink_down_env_def demo_env_def)

lemma valid_titan: "model valid_resolved = ''titan''"
  by (simp add: valid_resolved_def)

subsection \<open>After the parameters: one call of the logger on every path\<close>

lemma unsupported_model_result:
  "unsupported_model env rid st p r w =
     (respond env 400
        [(''error'', JStr (''Unsupported model: '' @ model r @ ''. Supported models: titan''))],
      log_to_dynamodb env
        (failure_record rid ''unknown'' p r (ms_since env st (clock env (time_reads w)))
           (''Unsupported model: '' @ model r @ ''. Supported models: titan''))
        (w\<lparr>time_reads := Suc (time_reads w)\<rparr>))"
  by (simp add: unsupported_model_def time_time_def failure_record_def Let_def)

lemma build_failed_result:
  "build_failed env rid st p r e w =
     (respond env 400
        [(''error'', JStr (''Error preparing request for '' @ model r @ '': '' @ str_exn e))],
      log_to_dynamodb env
        (failure_record rid ''unknown'' p r (ms_since env st (clock env (time_reads w)))
           (''Error preparing request for '' @ model r @ '': '' @ str_exn e))
        (w\<lparr>time_reads := Suc (time_reads w)\<rparr>))"
  by (simp add: build_failed_def time_time_def failure_record_def Let_def)

lemma invoke_failed_result:
  "invoke_failed env rid st p r mid e w =
     (respond env 500
        [(''error'', JStr (str_exn e)), (''model_attempted'', JStr (model r)),
         (''request_id'', JStr rid)],
      log_to_dynamodb env
        (failure_record rid mid p r (ms_since env st (clock env (time_reads w))) (str_exn e))
        (w\<lparr>time_reads := Suc (time_reads w)\<rparr>))"
  by (simp add: invoke_failed_def time_time_def failure_record_def Let_def)

lemma invoke_try_raised:
  "invoke_model env rb mid = Inl e \<Longrightarrow>
   invoke_try env rid p r rb mid w = (Inl e, w\<lparr>time_reads := Suc (time_reads w)\<rparr>)"
  by (simp add: invoke_try_def time_time_def)

lemma invoke_try_undecodable:
  "invoke_model env rb mid = Inr (Inl e) \<Longrightarrow>
   invoke_try env rid p r rb mid w = (Inl e, w\<lparr>time_reads := Suc (Suc (time_reads w))\<rparr>)"
  by (simp add: invoke_try_def time_time_def)

lemma invoke_try_success:
  "invoke_model env rb mid = Inr (Inr out) \<Longrightarrow> py_get out ''images'' JNull = Inr images \<Longrightarrow>
   calculate_output_images_size env images = Inr n \<Longrightarrow>
   invoke_try env rid p r rb mid w =
     (Inr (respond env 200
        [(''images'', images), (''model_used'', JStr (model r)), (''request_id'', JStr rid),
         (''generation_time_ms'',
          JInt (ms_since env (clock env (time_reads w)) (clock env (Suc (time_reads w)))))]),
      log_to_dynamodb env
        (success_record rid mid p r n
           (ms_since env (clock env (time_reads w)) (clock env (Suc (time_reads w)))))
        (w\<lparr>time_reads := Suc (Suc (time_reads w))\<rparr>))"
  by (simp add: invoke_try_def time_time_def success_record_def Let_def)

text \<open>An exception in the \<^verbatim>\<open>try\<close> is raised before the logger is reached.\<close>

lemma invoke_try_raised_unlogged:
  "invoke_try env rid p r rb mid w = (Inl e, w') \<Longrightarrow>
   log_calls w' = log_calls w \<and> table w' = table w"
  by (auto simp: invoke_try_def time_time_def Let_def split: sum.splits prod.splits)

lemma invoke_try_returned:
  "invoke_try env rid p r rb mid w = (Inr resp, w') \<Longrightarrow>
   statusCode resp = 200 \<and> map_of (body resp) ''request_id'' = Some (JStr rid) \<and>
   length (log_calls w') = Suc (length (log_calls w))"
  by (auto simp: invoke_try_def time_time_def Let_def respond_def log_to_dynamodb_def
           split: sum.splits prod.splits)

lemma invoke_logs_once:
  "length (log_calls (snd (invoke env rid st p r rb mid w))) = Suc (length (log_calls w))"
proof (cases "invoke_try env rid p r rb mid w")
  case (Pair res w')
  show ?thesis
  proof (cases res)
    case (Inl e)
    with Pair invoke_try_raised_unlogged [of env rid p r rb mid w e w'] show ?thesis
      by (simp add: invoke_def invoke_failed_result log_to_dynamodb_log_calls)
  next
    case (Inr resp)
    with Pair invoke_try_returned [of env rid p r rb mid w resp w'] show ?thesis
      by (simp add: invoke_def)
  qed
qed

lemma generate_logs_once:
  "length (log_calls (snd (generate env rid st p r w))) = Suc (length (log_calls w))"
  by (simp add: generate_def unsupported_model_result build_failed_result invoke_logs_once
        log_to_dynamodb_log_calls split: sum.splits)

lemma invoke_response:
  "fst (invoke env rid st p r rb mid w) = resp \<Longrightarrow>
   (statusCode resp = 200 \<or> statusCode resp = 500) \<and>
   map_of (body resp) ''request_id'' = Some (JStr rid)"
proof (cases "invoke_try env rid p r rb mid w")
  case (Pair res w')
  assume a: "fst (invoke env rid st p r rb mid w) = resp"
  show ?thesis
  proof (cases res)
    case (Inl e)
    with Pair a show ?thesis
      by (auto simp: invoke_def invoke_failed_result respond_def)
  next
    case (Inr resp')
    with Pair a invoke_try_returned [of env rid p r rb mid w resp' w'] show ?thesis
      by (simp add: invoke_def)
  qed
qed

lemma generate_titan:
  "model r = ''titan'' \<Longrightarrow>
   prepare_titan_request env (prompt_content p) (painting_mode p) (mask_base64 p) (image_base64 p)
     = Inr rb \<Longrightarrow>
   generate env rid st p r w = invoke env rid st p r rb titan_model_id w"
  by (simp add: generate_def)

lemma generate_other_model:
  "model r \<noteq> ''titan'' \<Longrightarrow> generate env rid st p r w = unsupported_model env rid st p r w"
  by (simp add: generate_def)

lemma generate_response:
  assumes "fst (generate env rid st p r w) = resp"
  shows "(statusCode resp = 200 \<or> statusCode resp = 400 \<or> statusCode resp = 500) \<and>
         (statusCode resp = 400 \<longrightarrow> ''request_id'' \<notin> fst ` set (body resp)) \<and>
         (statusCode resp \<noteq> 400 \<longrightarrow> map_of (body resp) ''request_id'' = Some (JStr rid))"
proof (cases "model r = ''titan''")
  case False
  with assms show ?thesis
    by (auto simp: generate_def unsupported_model_result respond_def)
next
  case True
  show ?thesis
  proof (cases "prepare_titan_request env (prompt_content p) (painting_mode p)
                  (mask_base64 p) (image_base64 p)")
    case (Inl e)
    with True assms show ?thesis
      by (auto simp: generate_def build_failed_result respond_def)
  next
    case (Inr rb)
    with True assms have "fst (invoke env rid st p r rb titan_model_id w) = resp"
      by (simp add: generate_def)
    from invoke_response [OF this] show ?thesis by auto
  qed
qed

subsection \<open>Whole runs of a request that reaches the generation service\<close>

text \<open>
  The clock is read at line 38 (\<open>clock env 0\<close>, \<^verbatim>\<open>start_time\<close>), at line 196
  (\<open>clock env 1\<close>, \<^verbatim>\<open>bedrock_start_time\<close>) and then either at line 207, after the call
  has returned, or at line 243, in the \<^verbatim>\<open>except\<close> clause.
\<close>

lemma handler_success:
  assumes "parse_body env event = Inr b"
    and "extract_parameters env b = Inr (Inr p)"
    and "resolve env b = Inr r"
    and "model r = ''titan''"
    and "prepare_titan_request env (prompt_content p) (painting_mode p) (mask_base64 p)
           (image_base64 p) = Inr rb"
    and "invoke_model env rb titan_model_id = Inr (Inr out)"
    and "py_get out ''images'' JNull = Inr images"
    and "calculate_output_images_size env images = Inr n"
  shows "lambda_handler env event =
     (Inr (respond env 200
        [(''images'', images), (''model_used'', JStr ''titan''),
         (''request_id'', JStr (uuid4 env)),
         (''generation_time_ms'', JInt (ms_since env (clock env 1) (clock env 2)))]),
      log_to_dynamodb env
        (success_record (uuid4 env) titan_model_id p r n (ms_since env (clock env 1) (clock env 2)))
        (started\<lparr>time_reads := 3\<rparr>))"
proof -
  have g: "generate env (uuid4 env) (clock env 0) p r started
             = invoke env (uuid4 env) (clock env 0) p r rb titan_model_id started"
    using assms(4,5) by (rule generate_titan)
  note t = invoke_try_success [OF assms(6-8), of "uuid4 env" p r started]
  show ?thesis
    using assms(1-4) g t
    by (simp add: handler_generate invoke_def started_simps eval_nat_numeral)
qed

lemma handler_invoke_raised:
  assumes "parse_body env event = Inr b"
    and "extract_parameters env b = Inr (Inr p)"
    and "resolve env b = Inr r"
    and "model r = ''titan''"
    and "prepare_titan_request env (prompt_content p) (painting_mode p) (mask_base64 p)
           (image_base64 p) = Inr rb"
    and "invoke_model env rb titan_model_id = Inl e"
  shows "lambda_handler env event =
     (Inr (respond env 500
        [(''error'', JStr (str_exn e)), (''model_attempted'', JStr ''titan''),
         (''request_id'', JStr (uuid4 env))]),
      log_to_dynamodb env
        (failure_record (uuid4 env) titan_model_id p r (ms_since env (clock env 0) (clock env 2))
           (str_exn e))
        (started\<lparr>time_reads := 3\<rparr>))"
proof -
  have g: "generate env (uuid4 env) (clock env 0) p r started
             = invoke env (uuid4 env) (clock env 0) p r rb titan_model_id started"
    using assms(4,5) by (rule generate_titan)
  show ?thesis
    using assms(1-4,6) g
    by (simp add: handler_generate invoke_def invoke_try_raised invoke_failed_result
          started_simps eval_nat_numeral)
qed

text \<open>The call returns and its body cannot be read or decoded: one more reading of the clock.\<close>

lemma handler_undecodable:
  assumes "parse_body env event = Inr b"
    and "extract_parameters env b = Inr (Inr p)"
    and "resolve env b = Inr r"
    and "model r = ''titan''"
    and "prepare_titan_request env (prompt_content p) (painting_mode p) (mask_base64 p)
           (image_base64 p) = Inr rb"
    and "invoke_model env rb titan_model_id = Inr (Inl e)"
  shows "lambda_handler env event =
     (Inr (respond env 500
        [(''error'', JStr (str_exn e)), (''model_attempted'', JStr ''titan''),
         (''request_id'', JStr (uuid4 env))]),
      log_to_dynamodb env
        (failure_record (uuid4 env) titan_model_id p r (ms_since env (clock env 0) (clock env 3))
           (str_exn e))
        (started\<lparr>time_reads := 4\<rparr>))"
proof -
  have g: "generate env (uuid4 env) (clock env 0) p r started
             = invoke env (uuid4 env) (clock env 0) p r rb titan_model_id started"
    using assms(4,5) by (rule generate_titan)
  show ?thesis
    using assms(1-4,6) g
    by (simp add: handler_generate invoke_def invoke_try_undecodable invoke_failed_result
          started_simps eval_nat_numeral)
qed

lemma demo_prepare:
  "prepare_titan_request demo_env (prompt_content valid_params) (painting_mode valid_params)
     (mask_base64 valid_params) (image_base64 valid_params) = Inr ''request''"
  by (simp add: demo_env_def)

lemma demo_images:
  "py_get (JObj [(''images'', JArr [JStr ''QUJDREVG''])]) ''images'' JNull
     = Inr (JArr [JStr ''QUJDREVG''])"
  by simp

lemma demo_success:
  "lambda_handler demo_env (event_of valid_body) =
     (Inr (respond demo_env 200
        [(''images'', JArr [JStr ''QUJDREVG'']), (''model_used'', JStr ''titan''),
         (''request_id'', JStr (uuid4 demo_env)), (''generation_time_ms'', JInt 1000)]),
      log_to_dynamodb demo_env
        (success_record (uuid4 demo_env) titan_model_id valid_params valid_resolved 6 1000)
        (started\<lparr>time_reads := 3\<rparr>))"
proof -
  have i: "invoke_model demo_env ''request'' titan_model_id
             = Inr (Inr (JObj [(''images'', JArr [JStr ''QUJDREVG''])]))"
    by (simp add: demo_env_def)
  have c: "calculate_output_images_size demo_env (JArr [JStr ''QUJDREVG'']) = Inr 6"
    by (simp add: demo_env_def)
  have ms: "ms_since demo_env (clock demo_env 1) (clock demo_env 2) = 1000"
    by (simp add: demo_env_def py_int_def)
  show ?thesis
    using handler_success [OF parse_body_dict extract_valid resolve_valid_demo valid_titan
            demo_prepare i demo_images c]
    unfolding ms .
qed

lemma failing_prepare:
  "prepare_titan_request failing_env (prompt_content valid_params) (painting_mode valid_params)
     (mask_base64 valid_params) (image_base64 valid_params) = Inr ''request''"
  by (simp add: failing_env_def demo_env_def)

lemma failing_invoke:
  "invoke_model failing_env ''request'' titan_model_id = Inl (Exn OtherError ''connection reset'')"
  by (simp add: failing_env_def demo_env_def)

lemma failing_run:
  "lambda_handler failing_env (event_of valid_body) =
     (Inr (respond failing_env 500
        [(''error'', JStr ''connection reset''), (''model_attempted'', JStr ''titan''),
         (''request_id'', JStr (uuid4 failing_env))]),
      log_to_dynamodb failing_env
        (failure_record (uuid4 failing_env) titan_model_id valid_params valid_resolved
           3000 ''connection reset'')
        (started\<lparr>time_reads := 3\<rparr>))"
proof -
  have ms: "ms_since failing_env (clock failing_env 0) (clock failing_env 2) = 3000"
    by (simp add: failing_env_def demo_env_def py_int_def)
  show ?thesis
    using handler_invoke_raised [OF parse_body_dict extract_valid resolve_valid_failing
            valid_titan failing_prepare failing_invoke]
    unfolding ms str_exn.simps .
qed

text \<open>
  The call returns and a later statement of the \<^verbatim>\<open>try\<close> raises (line 210, 211 or
  214): the clock has been read once more, at line 207.
\<close>

lemma invoke_try_late:
  assumes "invoke_model env rb mid = Inr ans"
    and "ans = Inl e
         \<or> (\<exists>out. ans = Inr out \<and> py_get out ''images'' JNull = Inl e)
         \<or> (\<exists>out images. ans = Inr out \<and> py_get out ''images'' JNull = Inr images \<and>
               calculate_output_images_size env images = Inl e)"
  shows "invoke_try env rid p r rb mid w = (Inl e, w\<lparr>time_reads := Suc (Suc (time_reads w))\<rparr>)"
  using assms by (auto simp: invoke_try_def time_time_def Let_def)

lemma handler_late_failure:
  assumes "parse_body env event = Inr b"
    and "extract_parameters env b = Inr (Inr p)"
    and "resolve env b = Inr r"
    and "model r = ''titan''"
    and "prepare_titan_request env (prompt_content p) (painting_mode p) (mask_base64 p)
           (image_base64 p) = Inr rb"
    and "invoke_model env rb titan_model_id = Inr ans"
    and "ans = Inl e
         \<or> (\<exists>out. ans = Inr out \<and> py_get out ''images'' JNull = Inl e)
         \<or> (\<exists>out images. ans = Inr out \<and> py_get out ''images'' JNull = Inr images \<and>
               calculate_output_images_size env images = Inl e)"
  shows "lambda_handler env event =
     (Inr (respond env 500
        [(''error'', JStr (str_exn e)), (''model_attempted'', JStr ''titan''),
         (''request_id'', JStr (uuid4 env))]),
      log_to_dynamodb env
        (failure_record (uuid4 env) titan_model_id p r (ms_since env (clock env 0) (clock env 3))
           (str_exn e))
        (started\<lparr>time_reads := 4\<rparr>))"
proof -
  have g: "generate env (uuid4 env) (clock env 0) p r started
             = invoke env (uuid4 env) (clock env 0) p r rb titan_model_id started"
    using assms(4,5) by (rule generate_titan)
  note t = invoke_try_late [OF assms(6,7), of "uuid4 env" p r started]
  show ?thesis
    using assms(1-4) g t
    by (simp add: handler_generate invoke_def invoke_failed_result
          started_simps eval_nat_numeral)
qed

lemma generate_build_failed:
  "model r = ''titan'' \<Longrightarrow>
   prepare_titan_request env (prompt_content p) (painting_mode p) (mask_base64 p) (image_base64 p)
     = Inl e \<Longrightarrow>
   generate env rid st p r w = build_failed env rid st p r e w"
  by (simp add: generate_def)

subsection \<open>The concrete environments, stage by stage\<close>

lemma resolve_valid_garbled: "resolve garbled_env (JObj valid_body) = Inr valid_resolved"
  by (rule resolve_valid_body) (simp_all add: garbled_env_def demo_env_def)

lemma resolve_valid_list_answer: "resolve list_answer_env (JObj valid_body) = Inr valid_resolved"
  by (rule resolve_valid_body) (simp_all add: list_answer_env_def demo_env_def)

lemma resolve_valid_size_fail: "resolve size_fail_env (JObj valid_body) = Inr valid_resolved"
  by (rule resolve_valid_body) (simp_all add: size_fail_env_def demo_env_def)

lemma resolve_valid_build_fail: "resolve build_fail_env (JObj valid_body) = Inr valid_resolved"
  by (rule resolve_valid_body) (simp_all add: build_fail_env_def demo_env_def)

lemma garbled_prepare:
  "prepare_titan_request garbled_env (prompt_content valid_params) (painting_mode valid_params)
     (mask_base64 valid_params) (image_base64 valid_params) = Inr ''request''"
  by (simp add: garbled_env_def demo_env_def)

lemma list_answer_prepare:
  "prepare_titan_request list_answer_env (prompt_content valid_params) (painting_mode valid_params)
     (mask_base64 valid_params) (image_base64 valid_params) = Inr ''request''"
  by (simp add: list_answer_env_def demo_env_def)

lemma size_fail_prepare:
  "prepare_titan_request size_fail_env (prompt_content valid_params) (painting_mode valid_params)
     (mask_base64 valid_params) (image_base64 valid_params) = Inr ''request''"
  by (simp add: size_fail_env_def demo_env_def)

lemma build_fail_prepare:
  "prepare_titan_request build_fail_env (prompt_content valid_params) (painting_mode valid_params)
     (mask_base64 valid_params) (image_base64 valid_params) = Inl (Exn OtherError ''Invalid mode'')"
  by (simp add: build_fail_env_def)

lemma garbled_invoke:
  "invoke_model garbled_env ''request'' titan_model_id
     = Inr (Inl (Exn JSONDecodeError ''Expecting value: line 1 column 1 (char 0)''))"
  by (simp add: garbled_env_def)

lemma list_answer_invoke:
  "invoke_model list_answer_env ''request'' titan_model_id = Inr (Inr (JArr []))"
  by (simp add: list_answer_env_def)

lemma list_answer_images:
  "py_get (JArr []) ''images'' JNull = Inl (no_attribute (JArr []) ''get'')"
  by simp

lemma size_fail_invoke:
  "invoke_model size_fail_env ''request'' titan_model_id
     = Inr (Inr (JObj [(''images'', JArr [JStr ''QUJDREVG''])]))"
  by (simp add: size_fail_env_def demo_env_def)

lemma size_fail_size:
  "calculate_output_images_size size_fail_env (JArr [JStr ''QUJDREVG''])
     = Inl (Exn OtherError ''Incorrect padding'')"
  by (simp add: size_fail_env_def)

lemma demo_invoke:
  "invoke_model demo_env ''request'' titan_model_id
     = Inr (Inr (JObj [(''images'', JArr [JStr ''QUJDREVG''])]))"
  by (simp add: demo_env_def)

lemma demo_size:
  "calculate_output_images_size demo_env (JArr [JStr ''QUJDREVG'']) = Inr 6"
  by (simp add: demo_env_def)

lemma parse_no_body:
  "parse_body env (JObj []) =
     Inl (respond env 400
            [(''error'', JStr ''Missing body in request''), (''event_keys'', JArr [])])"
  by (simp add: parse_body_def parse_body_try_def)

lemma extract_empty:
  "extract_parameters env (JObj []) =
     Inr (Inl (respond env 400
       [(''error'', JStr (''Missing '' @ dquoted ''prompt'' @ '' field'')),
        (''received_keys'', JArr [])]))"
  using extract_no_prompt [of "[]" env] by simp

lemma resolve_sdxl_demo:
  "resolve demo_env (JObj (valid_body @ [(''model'', JStr ''SDXL'')])) =
     Inr \<lparr>model = ''sdxl'', canvas_config = JObj [], image_size_in = 3, mask_size_in = 3\<rparr>"
  by (rule resolve_sdxl_body) (simp_all add: demo_env_def)

lemma extract_sdxl:
  "extract_parameters env (JObj (valid_body @ [(''model'', JStr ''SDXL'')])) = Inr (Inr valid_params)"
  by (rule extract_valid_body) simp

lemma env_times:
  "ms_since demo_env (clock demo_env (Suc 0)) (clock demo_env 2) = 1000"
  "ms_since failing_env (clock failing_env 0) (clock failing_env 2) = 3000"
  "ms_since garbled_env (clock garbled_env 0) (clock garbled_env 3) = 7000"
  "ms_since list_answer_env (clock list_answer_env 0) (clock list_answer_env 3) = 7000"
  "ms_since size_fail_env (clock size_fail_env 0) (clock size_fail_env 3) = 7000"
  by (simp_all add: demo_env_def failing_env_def garbled_env_def list_answer_env_def
        size_fail_env_def py_int_def)

section \<open>The claims\<close>

subsection \<open>C1: audit records per invocation\<close>

text \<open>
  C1 says that every invocation of the handler produces exactly one audit record, on
  every exit path. A record is produced when the handler calls \<^verbatim>\<open>log_to_dynamodb\<close>.
  The returns of lines 48 to 136 (body parsing and field extraction) come before any
  such call: an event without a body is answered with 400 and no record.
\<close>

theorem C1_missing_body_unlogged:
  "fst (lambda_handler demo_env (JObj [])) =
     Inr (respond demo_env 400
            [(''error'', JStr ''Missing body in request''), (''event_keys'', JArr [])])
   \<and> length (log_calls (snd (lambda_handler demo_env (JObj [])))) \<noteq> 1"
proof -
  have "parse_body demo_env (JObj []) =
          Inl (respond demo_env 400
                 [(''error'', JStr ''Missing body in request''), (''event_keys'', JArr [])])"
    by (simp add: parse_body_def parse_body_try_def)
  then show ?thesis
    by (simp add: handler_parse_rejected started_simps)
qed

text \<open>
  C1 as the code has it: an invocation rejected while the body is parsed or the
  required fields are extracted returns its response and produces no record; an
  invocation that gets past both and past the model and size computation returns a
  response and produces exactly one record, whatever happens next (unsupported model,
  build failure, failure of the generation call, success).
\<close>

theorem C1_one_record_once_parameters_known:
  "(parse_body env event = Inl resp \<longrightarrow>
      fst (lambda_handler env event) = Inr resp \<and>
      log_calls (snd (lambda_handler env event)) = []) \<and>
   (parse_body env event = Inr b \<and> extract_parameters env b = Inr (Inl resp) \<longrightarrow>
      fst (lambda_handler env event) = Inr resp \<and>
      log_calls (snd (lambda_handler env event)) = []) \<and>
   (parse_body env event = Inr b \<and> extract_parameters env b = Inr (Inr p) \<and>
    resolve env b = Inr r \<longrightarrow>
      (\<exists>resp'. fst (lambda_handler env event) = Inr resp') \<and>
      length (log_calls (snd (lambda_handler env event))) = 1)"
  by (simp add: handler_parse_rejected handler_extract_rejected handler_generate
        generate_logs_once started_simps)

text \<open>
  The three cases of C1 at concrete events: no body, a body without \<^verbatim>\<open>prompt\<close>, and a
  valid body.
\<close>

theorem C1_witness:
  "(parse_body demo_env (JObj []) =
      Inl (respond demo_env 400
             [(''error'', JStr ''Missing body in request''), (''event_keys'', JArr [])]) \<and>
    log_calls (snd (lambda_handler demo_env (JObj []))) = []) \<and>
   (parse_body demo_env (event_of []) = Inr (JObj []) \<and>
    extract_parameters demo_env (JObj []) =
      Inr (Inl (respond demo_env 400
                  [(''error'', JStr (''Missing '' @ dquoted ''prompt'' @ '' field'')),
                   (''received_keys'', JArr [])])) \<and>
    log_calls (snd (lambda_handler demo_env (event_of []))) = []) \<and>
   (parse_body demo_env (event_of valid_body) = Inr (JObj valid_body) \<and>
    extract_parameters demo_env (JObj valid_body) = Inr (Inr valid_params) \<and>
    resolve demo_env (JObj valid_body) = Inr valid_resolved \<and>
    length (log_calls (snd (lambda_handler demo_env (event_of valid_body)))) = 1)"
proof -
  have a: "parse_body demo_env (JObj []) =
      Inl (respond demo_env 400
             [(''error'', JStr ''Missing body in request''), (''event_keys'', JArr [])])"
    by (simp add: parse_body_def parse_body_try_def)
  have b: "extract_parameters demo_env (JObj []) =
      Inr (Inl (respond demo_env 400
                  [(''error'', JStr (''Missing '' @ dquoted ''prompt'' @ '' field'')),
                   (''received_keys'', JArr [])]))"
    using extract_no_prompt [of "[]" demo_env] by simp
  show ?thesis
    using a b parse_body_dict [of demo_env "[]"] parse_body_dict [of demo_env valid_body]
      extract_valid [of demo_env] resolve_valid_demo
      C1_one_record_once_parameters_known
        [where env = demo_env and event = "JObj []" and resp = "respond demo_env 400
             [(''error'', JStr ''Missing body in request''), (''event_keys'', JArr [])]"]
      C1_one_record_once_parameters_known
        [where env = demo_env and event = "event_of []" and b = "JObj []"]
      C1_one_record_once_parameters_known
        [where env = demo_env and event = "event_of valid_body" and b = "JObj valid_body"
           and p = valid_params]
    by simp
qed

subsection \<open>C2: a required field is missing\<close>

text \<open>
  C2 says that a body missing \<^verbatim>\<open>prompt\<close>, \<^verbatim>\<open>mask\<close> or \<^verbatim>\<open>base_image\<close> is answered
  with 400 and a message naming the field, and that exactly one audit record with
  \<^verbatim>\<open>success=false\<close> is produced. For a body without \<^verbatim>\<open>mask\<close> the response is as
  claimed, and no record is produced.
\<close>

theorem C2_missing_mask_unlogged:
  "fst (lambda_handler demo_env (event_of no_mask_body)) =
     Inr (respond demo_env 400 [(''error'', JStr (''Missing '' @ dquoted ''mask'' @ '' field''))])
   \<and> length (log_calls (snd (lambda_handler demo_env (event_of no_mask_body)))) \<noteq> 1"
proof -
  have "extract_parameters demo_env (JObj no_mask_body) =
     Inr (Inl (respond demo_env 400 [(''error'', JStr (''Missing '' @ dquoted ''mask'' @ '' field''))]))"
    by (rule extract_no_mask [where pr = "[(''text'', JStr ''a cat''), (''mode'', JStr ''INPAINTING'')]"])
       (simp_all add: no_mask_body_def)
  then show ?thesis
    by (simp add: handler_extract_rejected [OF parse_body_dict] started_simps)
qed

text \<open>
  C2 as the code has it, for a body that is a dict \<open>kvs\<close>. If one of the three keys is
  missing the handler returns a response with status 400 and produces no audit record.
  The checks run in the order \<^verbatim>\<open>prompt\<close>, \<^verbatim>\<open>mask\<close>, \<^verbatim>\<open>base_image\<close> and the first
  failure decides the message: a missing \<^verbatim>\<open>prompt\<close> is always named; a missing
  \<^verbatim>\<open>mask\<close> is named when the prompt is a dict with \<^verbatim>\<open>text\<close> and \<^verbatim>\<open>mode\<close>; a missing
  \<^verbatim>\<open>base_image\<close> is named when, besides, the prefix of the mask could be stripped.
\<close>

theorem C2_missing_field_rejected_unlogged:
  assumes "parse_body env event = Inr (JObj kvs)"
  shows
   "(''prompt'' \<notin> fst ` set kvs \<or> ''mask'' \<notin> fst ` set kvs \<or> ''base_image'' \<notin> fst ` set kvs \<longrightarrow>
       (\<exists>resp. fst (lambda_handler env event) = Inr resp \<and> statusCode resp = 400) \<and>
       log_calls (snd (lambda_handler env event)) = []) \<and>
    (''prompt'' \<notin> fst ` set kvs \<longrightarrow>
       fst (lambda_handler env event) =
         Inr (respond env 400
           [(''error'', JStr (''Missing '' @ dquoted ''prompt'' @ '' field'')),
            (''received_keys'', JArr (map JStr (map fst kvs)))])) \<and>
    (map_of kvs ''prompt'' = Some (JObj pr) \<and> map_of pr ''text'' = Some t \<and>
     map_of pr ''mode'' = Some m \<and> ''mask'' \<notin> fst ` set kvs \<longrightarrow>
       fst (lambda_handler env event) =
         Inr (respond env 400 [(''error'', JStr (''Missing '' @ dquoted ''mask'' @ '' field''))])) \<and>
    (map_of kvs ''prompt'' = Some (JObj pr) \<and> map_of pr ''text'' = Some t \<and>
     map_of pr ''mode'' = Some m \<and> map_of kvs ''mask'' = Some k \<and> strip_field k = Inr kb \<and>
     ''base_image'' \<notin> fst ` set kvs \<longrightarrow>
       fst (lambda_handler env event) =
         Inr (respond env 400
           [(''error'', JStr (''Missing '' @ dquoted ''base_image'' @ '' field''))]))"
proof -
  have general: "(\<exists>resp. fst (lambda_handler env event) = Inr resp \<and> statusCode resp = 400) \<and>
       log_calls (snd (lambda_handler env event)) = []"
    if "''prompt'' \<notin> fst ` set kvs \<or> ''mask'' \<notin> fst ` set kvs \<or> ''base_image'' \<notin> fst ` set kvs"
  proof -
    from extract_missing_key [OF that, of env] obtain resp
      where "extract_parameters env (JObj kvs) = Inr (Inl resp)" and "statusCode resp = 400"
      by blast
    then show ?thesis
      by (simp add: handler_extract_rejected [OF assms] started_simps)
  qed
  have prompt: "fst (lambda_handler env event) =
         Inr (respond env 400
           [(''error'', JStr (''Missing '' @ dquoted ''prompt'' @ '' field'')),
            (''received_keys'', JArr (map JStr (map fst kvs)))])"
    if "''prompt'' \<notin> fst ` set kvs"
    by (simp add: handler_extract_rejected [OF assms extract_no_prompt [OF that]])
  have mask: "fst (lambda_handler env event) =
         Inr (respond env 400 [(''error'', JStr (''Missing '' @ dquoted ''mask'' @ '' field''))])"
    if "map_of kvs ''prompt'' = Some (JObj pr)" "map_of pr ''text'' = Some t"
       "map_of pr ''mode'' = Some m" "''mask'' \<notin> fst ` set kvs"
    by (simp add: handler_extract_rejected [OF assms extract_no_mask [OF that]])
  have image: "fst (lambda_handler env event) =
         Inr (respond env 400
           [(''error'', JStr (''Missing '' @ dquoted ''base_image'' @ '' field''))])"
    if "map_of kvs ''prompt'' = Some (JObj pr)" "map_of pr ''text'' = Some t"
       "map_of pr ''mode'' = Some m" "map_of kvs ''mask'' = Some k" "strip_field k = Inr kb"
       "''base_image'' \<notin> fst ` set kvs"
    by (simp add: handler_extract_rejected [OF assms extract_no_base_image [OF that]])
  from general prompt mask image show ?thesis by blast
qed

text \<open>C2 at three bodies, each missing one of the fields.\<close>

theorem C2_witness:
  "(parse_body demo_env (event_of []) = Inr (JObj []) \<and>
    fst (lambda_handler demo_env (event_of [])) =
      Inr (respond demo_env 400
        [(''error'', JStr (''Missing '' @ dquoted ''prompt'' @ '' field'')),
         (''received_keys'', JArr [])]) \<and>
    log_calls (snd (lambda_handler demo_env (event_of []))) = []) \<and>
   (parse_body demo_env (event_of no_mask_body) = Inr (JObj no_mask_body) \<and>
    fst (lambda_handler demo_env (event_of no_mask_body)) =
      Inr (respond demo_env 400 [(''error'', JStr (''Missing '' @ dquoted ''mask'' @ '' field''))]) \<and>
    log_calls (snd (lambda_handler demo_env (event_of no_mask_body))) = []) \<and>
   (parse_body demo_env (event_of no_image_body) = Inr (JObj no_image_body) \<and>
    fst (lambda_handler demo_env (event_of no_image_body)) =
      Inr (respond demo_env 400
        [(''error'', JStr (''Missing '' @ dquoted ''base_image'' @ '' field''))]) \<and>
    log_calls (snd (lambda_handler demo_env (event_of no_image_body))) = [])"
proof -
  have s: "strip_field (JStr ''data:image/png;base64,AAAA'') = Inr (JStr ''AAAA'')"
    by (simp add: strip_data_uri_prefix_def)
  show ?thesis
    using C2_missing_field_rejected_unlogged [OF parse_body_dict,
        where kvs = "[]" and env = demo_env]
      C2_missing_field_rejected_unlogged [OF parse_body_dict,
        where kvs = no_mask_body and env = demo_env
          and pr = "[(''text'', JStr ''a cat''), (''mode'', JStr ''INPAINTING'')]"
          and t = "JStr ''a cat''" and m = "JStr ''INPAINTING''"]
      C2_missing_field_rejected_unlogged [OF parse_body_dict,
        where kvs = no_image_body and env = demo_env
          and pr = "[(''text'', JStr ''a cat''), (''mode'', JStr ''INPAINTING'')]"
          and t = "JStr ''a cat''" and m = "JStr ''INPAINTING''"
          and k = "JStr ''data:image/png;base64,AAAA''" and kb = "JStr ''AAAA''"]
      s
    by (simp add: parse_body_dict no_mask_body_def no_image_body_def)
qed

subsection \<open>C3: no exception leaves the handler\<close>

text \<open>
  C3 says that every failure at every stage, model resolution included, is caught and
  turned into a response. Line 139, \<^verbatim>\<open>body.get('model', 'titan').lower()\<close>, is outside
  every \<^verbatim>\<open>try\<close>, while the stages before and after it each end in
  \<^verbatim>\<open>except Exception\<close>. With a valid body whose \<^verbatim>\<open>model\<close> is the number 5 the
  \<^verbatim>\<open>AttributeError\<close> of \<^verbatim>\<open>.lower()\<close> leaves the handler, in every environment.
\<close>

theorem C3_non_string_model_escapes:
  "fst (lambda_handler env (event_of (valid_body @ [(''model'', JInt 5)]))) =
     Inl (Exn AttributeError (quoted ''int'' @ '' object has no attribute '' @ quoted ''lower''))"
proof -
  have e: "extract_parameters env (JObj (valid_body @ [(''model'', JInt 5)]))
             = Inr (Inr valid_params)"
    by (rule extract_valid_body) simp
  have r: "resolve env (JObj (valid_body @ [(''model'', JInt 5)])) =
             Inl (Exn AttributeError
                    (quoted ''int'' @ '' object has no attribute '' @ quoted ''lower''))"
    by (simp add: resolve_def resolve_model_def valid_body_def no_attribute_def)
  show ?thesis
    by (simp add: handler_resolve_raised [OF parse_body_dict e r])
qed

subsection \<open>C4: what stripping the prefix returns\<close>

text \<open>
  C4 says that a field with a comma is replaced by everything after its first comma.
  The code takes element 1 of \<^verbatim>\<open>split(",")\<close>, which ends at the second comma:
  \<^verbatim>\<open>"a,b,c"\<close> gives \<^verbatim>\<open>"b"\<close>, not \<^verbatim>\<open>"b,c"\<close>.
\<close>

theorem C4_whole_remainder_refuted:
  "strip_data_uri_prefix ''a,b,c'' = Inr ''b'' \<and>
   strip_data_uri_prefix ''a,b,c'' \<noteq> Inr ''b,c''"
  by (simp add: strip_data_uri_prefix_def)

text \<open>
  C4 as the code has it. A string without a comma is returned unchanged. A string with
  a comma gives the text between its first comma and the next one, or the end of the
  string when there is no other comma; this is the whole remainder exactly when the
  remainder has no comma. The expression is applied to the value of \<^verbatim>\<open>mask\<close> and to
  the value of \<^verbatim>\<open>base_image\<close>, each on its own.
\<close>

theorem C4_strip_up_to_next_comma:
  "(CHR '','' \<notin> set x \<longrightarrow> strip_data_uri_prefix x = Inr x) \<and>
   (CHR '','' \<notin> set pre \<and> CHR '','' \<notin> set d \<longrightarrow>
      strip_data_uri_prefix (pre @ CHR '','' # d) = Inr d \<and>
      strip_data_uri_prefix (pre @ CHR '','' # d @ CHR '','' # rest) = Inr d) \<and>
   strip_field (JStr x) =
     (case strip_data_uri_prefix x of Inl e \<Rightarrow> Inl e | Inr s \<Rightarrow> Inr (JStr s)) \<and>
   (extract_parameters env b = Inr (Inr p) \<longrightarrow>
      (\<exists>m i. py_getitem b ''mask'' = Inr m \<and> strip_field m = Inr (mask_base64 p) \<and>
             py_getitem b ''base_image'' = Inr i \<and> strip_field i = Inr (image_base64 p)))"
proof -
  have "extract_parameters env b = Inr (Inr p) \<Longrightarrow>
      (\<exists>m i. py_getitem b ''mask'' = Inr m \<and> strip_field m = Inr (mask_base64 p) \<and>
             py_getitem b ''base_image'' = Inr i \<and> strip_field i = Inr (image_base64 p))"
    using extract_try_params [OF extract_parameters_params, of env b p] by blast
  then show ?thesis
    by (simp add: strip_no_comma strip_one_comma strip_more_commas)
qed

text \<open>C4 on a raw value, a data URI, a text with two commas, and the valid body.\<close>

theorem C4_witness:
  "strip_data_uri_prefix ''AAAA'' = Inr ''AAAA'' \<and>
   strip_data_uri_prefix ''data:image/png;base64,AAAA'' = Inr ''AAAA'' \<and>
   strip_data_uri_prefix ''data:image/png;base64,AAAA,BBBB'' = Inr ''AAAA'' \<and>
   extract_parameters demo_env (JObj valid_body) = Inr (Inr valid_params) \<and>
   (\<exists>m i. py_getitem (JObj valid_body) ''mask'' = Inr m \<and>
          strip_field m = Inr (mask_base64 valid_params) \<and>
          py_getitem (JObj valid_body) ''base_image'' = Inr i \<and>
          strip_field i = Inr (image_base64 valid_params))"
  using C4_strip_up_to_next_comma
          [where x = "''AAAA''" and pre = "''data:image/png;base64''" and d = "''AAAA''"
             and rest = "''BBBB''" and env = demo_env and b = "JObj valid_body"
             and p = valid_params]
    extract_valid [of demo_env]
  by simp

subsection \<open>C5: stripping twice is stripping once\<close>

text \<open>
  C5: normalising a base64 field is idempotent. On every string the expression
  returns, and applying it to its result returns the result again. The data URI
  \<^verbatim>\<open>"data:image/png;base64,AAAA"\<close> gives \<^verbatim>\<open>"AAAA"\<close>, and so does \<^verbatim>\<open>"AAAA"\<close>.
\<close>

theorem C5_strip_idempotent:
  "(\<exists>r. strip_data_uri_prefix x = Inr r \<and> strip_data_uri_prefix r = Inr r) \<and>
   strip_data_uri_prefix ''data:image/png;base64,AAAA'' = Inr ''AAAA'' \<and>
   strip_data_uri_prefix ''AAAA'' = Inr ''AAAA''"
proof -
  obtain r where "strip_data_uri_prefix x = Inr r" and "CHR '','' \<notin> set r"
    using strip_result by blast
  then have "\<exists>r. strip_data_uri_prefix x = Inr r \<and> strip_data_uri_prefix r = Inr r"
    by (auto simp: strip_no_comma)
  then show ?thesis
    by (simp add: strip_data_uri_prefix_def [of "''data:image/png;base64,AAAA''"]
          strip_data_uri_prefix_def [of "''AAAA''"])
qed

subsection \<open>C6: a model that is not supported\<close>

text \<open>
  C6 says that every body whose model, lower-cased, is not \<^verbatim>\<open>titan\<close> is answered with
  400 and a message containing the model, and that exactly one failed audit record is
  logged. The model is looked at only after the required fields: the body
  \<^verbatim>\<open>{"model": "sdxl"}\<close> is answered with the message about the missing prompt, which
  does not mention the model, and nothing is logged.
\<close>

theorem C6_resolved_model_without_prompt:
  "resolve_model demo_env (JObj [(''model'', JStr ''sdxl'')]) = Inr ''sdxl'' \<and>
   fst (lambda_handler demo_env (event_of [(''model'', JStr ''sdxl'')])) =
     Inr (respond demo_env 400
        [(''error'', JStr (''Missing '' @ dquoted ''prompt'' @ '' field'')),
         (''received_keys'', JArr [JStr ''model''])]) \<and>
   length (log_calls (snd (lambda_handler demo_env (event_of [(''model'', JStr ''sdxl'')])))) \<noteq> 1"
proof -
  have m: "resolve_model demo_env (JObj [(''model'', JStr ''sdxl'')]) = Inr ''sdxl''"
    by (simp add: resolve_model_def demo_env_def char_lower_def)
  have e: "extract_parameters demo_env (JObj [(''model'', JStr ''sdxl'')]) =
     Inr (Inl (respond demo_env 400
        [(''error'', JStr (''Missing '' @ dquoted ''prompt'' @ '' field'')),
         (''received_keys'', JArr [JStr ''model''])]))"
    using extract_no_prompt [of "[(''model'', JStr ''sdxl'')]" demo_env] by simp
  show ?thesis
    using m by (simp add: handler_extract_rejected [OF parse_body_dict e] started_simps)
qed

text \<open>
  C6 as the code has it: for a request that has got past parsing and extraction and
  whose two input sizes have been computed, when the model of the body, lower-cased, is
  not \<^verbatim>\<open>titan\<close>, the response is 400 with the message
  \<^verbatim>\<open>Unsupported model: <model>. Supported models: titan\<close>, and exactly one audit
  record is produced, a failed one whose model id is \<^verbatim>\<open>unknown\<close>.
\<close>

theorem C6_unsupported_model_rejected:
  assumes "parse_body env event = Inr b"
    and "extract_parameters env b = Inr (Inr p)"
    and "resolve env b = Inr r"
    and "model r \<notin> {''titan''}"
  shows "\<exists>w a. lambda_handler env event =
            (Inr (respond env 400
               [(''error'', JStr (''Unsupported model: '' @ model r @ ''. Supported models: titan''))]), w)
          \<and> resolve_model env b = Inr (model r)
          \<and> log_calls w = [a] \<and> success a = False \<and> model_id a = ''unknown''
          \<and> error_message a = Some (''Unsupported model: '' @ model r @ ''. Supported models: titan'')"
proof -
  from assms(4) have "model r \<noteq> ''titan''" by simp
  then have "generate env (uuid4 env) (clock env 0) p r started
               = unsupported_model env (uuid4 env) (clock env 0) p r started"
    by (rule generate_other_model)
  with assms(1-3) show ?thesis
    by (simp add: handler_generate unsupported_model_result log_to_dynamodb_log_calls
          started_simps failure_record_def resolve_model_of)
qed

text \<open>C6 at a valid body that asks for the model \<^verbatim>\<open>SDXL\<close>.\<close>

theorem C6_witness:
  "\<exists>w a. lambda_handler demo_env (event_of (valid_body @ [(''model'', JStr ''SDXL'')])) =
            (Inr (respond demo_env 400
               [(''error'', JStr ''Unsupported model: sdxl. Supported models: titan'')]), w)
          \<and> log_calls w = [a] \<and> success a = False \<and> model_id a = ''unknown''"
proof -
  have r: "resolve demo_env (JObj (valid_body @ [(''model'', JStr ''SDXL'')])) =
     Inr \<lparr>model = ''sdxl'', canvas_config = JObj [], image_size_in = 3, mask_size_in = 3\<rparr>"
    by (rule resolve_sdxl_body) (simp_all add: demo_env_def)
  have e: "extract_parameters demo_env (JObj (valid_body @ [(''model'', JStr ''SDXL'')]))
             = Inr (Inr valid_params)"
    by (rule extract_valid_body) simp
  show ?thesis
    using C6_unsupported_model_rejected [OF parse_body_dict e r] by auto
qed

subsection \<open>C7: where the generation time is measured from\<close>

text \<open>
  C7 says that the reported generation time starts immediately before the call of
  the generation service, on success and on failure of the call alike. In the
  \<^verbatim>\<open>except\<close> clause, line 243, the time is taken from \<^verbatim>\<open>start_time\<close>, as in the two
  failure paths before it. With the clock at 10 s when the request starts, at 12 s
  before the call and at 13 s when the call has failed, the record holds 3000 ms, not
  1000 ms.
\<close>

theorem C7_failure_time_from_request_start:
  "map generation_time_ms (log_calls (snd (lambda_handler failing_env (event_of valid_body))))
     = [3000] \<and>
   ms_since failing_env (clock failing_env 0) (clock failing_env 2) = 3000 \<and>
   ms_since failing_env (clock failing_env 1) (clock failing_env 2) = 1000"
  by (simp add: failing_run log_to_dynamodb_log_calls started_simps failure_record_def)
     (simp add: failing_env_def demo_env_def py_int_def)

text \<open>
  C7 as the code has it, for a request that reaches the generation service. When the
  call returns and its answer is decoded and sized (the 200 response), the time in the
  response and in the audit record runs from the reading taken immediately before the
  call (\<open>clock env 1\<close>) to the reading taken when the call has returned
  (\<open>clock env 2\<close>). In every other case the time in the audit record runs from the
  start of the request (\<open>clock env 0\<close>) to the reading of the \<^verbatim>\<open>except\<close> clause, and the
  500 response reports no generation time: that reading is \<open>clock env 2\<close> when the call
  itself raises, and \<open>clock env 3\<close> when the call returns and then the answer cannot be
  decoded, is not a dict, or the size helper raises.
\<close>

theorem C7_generation_time_origin:
  assumes "parse_body env event = Inr b"
    and "extract_parameters env b = Inr (Inr p)"
    and "resolve env b = Inr r"
    and "model r = ''titan''"
    and "prepare_titan_request env (prompt_content p) (painting_mode p) (mask_base64 p)
           (image_base64 p) = Inr rb"
  shows
   "(invoke_model env rb titan_model_id = Inr (Inr out) \<and>
     py_get out ''images'' JNull = Inr images \<and>
     calculate_output_images_size env images = Inr n \<longrightarrow>
       (\<exists>resp. fst (lambda_handler env event) = Inr resp \<and> statusCode resp = 200 \<and>
          map_of (body resp) ''generation_time_ms''
            = Some (JInt (ms_since env (clock env 1) (clock env 2)))) \<and>
       map generation_time_ms (log_calls (snd (lambda_handler env event)))
         = [ms_since env (clock env 1) (clock env 2)]) \<and>
    (invoke_model env rb titan_model_id = Inl e \<longrightarrow>
       (\<exists>resp. fst (lambda_handler env event) = Inr resp \<and> statusCode resp = 500 \<and>
          ''generation_time_ms'' \<notin> fst ` set (body resp)) \<and>
       map generation_time_ms (log_calls (snd (lambda_handler env event)))
         = [ms_since env (clock env 0) (clock env 2)]) \<and>
    (invoke_model env rb titan_model_id = Inr (Inl e) \<or>
     invoke_model env rb titan_model_id = Inr (Inr out) \<and>
       py_get out ''images'' JNull = Inl e \<or>
     invoke_model env rb titan_model_id = Inr (Inr out) \<and>
       py_get out ''images'' JNull = Inr images \<and>
       calculate_output_images_size env images = Inl e \<longrightarrow>
       (\<exists>resp. fst (lambda_handler env event) = Inr resp \<and> statusCode resp = 500 \<and>
          ''generation_time_ms'' \<notin> fst ` set (body resp)) \<and>
       map generation_time_ms (log_calls (snd (lambda_handler env event)))
         = [ms_since env (clock env 0) (clock env 3)])"
proof -
  have ok: "(\<exists>resp. fst (lambda_handler env event) = Inr resp \<and> statusCode resp = 200 \<and>
          map_of (body resp) ''generation_time_ms''
            = Some (JInt (ms_since env (clock env 1) (clock env 2)))) \<and>
       map generation_time_ms (log_calls (snd (lambda_handler env event)))
         = [ms_since env (clock env 1) (clock env 2)]"
    if "invoke_model env rb titan_model_id = Inr (Inr out)"
       "py_get out ''images'' JNull = Inr images"
       "calculate_output_images_size env images = Inr n"
    by (simp add: handler_success [OF assms that] respond_def log_to_dynamodb_log_calls
          started_simps success_record_def)
  have bad: "(\<exists>resp. fst (lambda_handler env event) = Inr resp \<and> statusCode resp = 500 \<and>
          ''generation_time_ms'' \<notin> fst ` set (body resp)) \<and>
       map generation_time_ms (log_calls (snd (lambda_handler env event)))
         = [ms_since env (clock env 0) (clock env 2)]"
    if "invoke_model env rb titan_model_id = Inl e"
    by (simp add: handler_invoke_raised [OF assms that] respond_def log_to_dynamodb_log_calls
          started_simps failure_record_def)
  have late: "(\<exists>resp. fst (lambda_handler env event) = Inr resp \<and> statusCode resp = 500 \<and>
          ''generation_time_ms'' \<notin> fst ` set (body resp)) \<and>
       map generation_time_ms (log_calls (snd (lambda_handler env event)))
         = [ms_since env (clock env 0) (clock env 3)]"
    if "invoke_model env rb titan_model_id = Inr ans"
       "ans = Inl e
         \<or> (\<exists>out. ans = Inr out \<and> py_get out ''images'' JNull = Inl e)
         \<or> (\<exists>out images. ans = Inr out \<and> py_get out ''images'' JNull = Inr images \<and>
               calculate_output_images_size env images = Inl e)" for ans
    by (simp add: handler_late_failure [OF assms that] respond_def log_to_dynamodb_log_calls
          started_simps failure_record_def)
  from ok bad late show ?thesis by blast
qed

text \<open>
  C7 at the valid body: a service that returns, one that raises, an answer that is not
  JSON, an answer that is a list, and a size helper that raises.
\<close>

theorem C7_witness:
  "(invoke_model demo_env ''request'' titan_model_id
      = Inr (Inr (JObj [(''images'', JArr [JStr ''QUJDREVG''])])) \<and>
    map generation_time_ms (log_calls (snd (lambda_handler demo_env (event_of valid_body))))
      = [ms_since demo_env (clock demo_env 1) (clock demo_env 2)]) \<and>
   (invoke_model failing_env ''request'' titan_model_id
      = Inl (Exn OtherError ''connection reset'') \<and>
    map generation_time_ms (log_calls (snd (lambda_handler failing_env (event_of valid_body))))
      = [ms_since failing_env (clock failing_env 0) (clock failing_env 2)]) \<and>
   (invoke_model garbled_env ''request'' titan_model_id
      = Inr (Inl (Exn JSONDecodeError ''Expecting value: line 1 column 1 (char 0)'')) \<and>
    map generation_time_ms (log_calls (snd (lambda_handler garbled_env (event_of valid_body))))
      = [ms_since garbled_env (clock garbled_env 0) (clock garbled_env 3)]) \<and>
   (invoke_model list_answer_env ''request'' titan_model_id = Inr (Inr (JArr [])) \<and>
    py_get (JArr []) ''images'' JNull = Inl (no_attribute (JArr []) ''get'') \<and>
    map generation_time_ms (log_calls (snd (lambda_handler list_answer_env (event_of valid_body))))
      = [ms_since list_answer_env (clock list_answer_env 0) (clock list_answer_env 3)]) \<and>
   (calculate_output_images_size size_fail_env (JArr [JStr ''QUJDREVG''])
      = Inl (Exn OtherError ''Incorrect padding'') \<and>
    map generation_time_ms (log_calls (snd (lambda_handler size_fail_env (event_of valid_body))))
      = [ms_since size_fail_env (clock size_fail_env 0) (clock size_fail_env 3)]) \<and>
   ms_since demo_env (clock demo_env 1) (clock demo_env 2) = 1000 \<and>
   ms_since failing_env (clock failing_env 0) (clock failing_env 2) = 3000 \<and>
   ms_since garbled_env (clock garbled_env 0) (clock garbled_env 3) = 7000 \<and>
   ms_since list_answer_env (clock list_answer_env 0) (clock list_answer_env 3) = 7000 \<and>
   ms_since size_fail_env (clock size_fail_env 0) (clock size_fail_env 3) = 7000"
  using C7_generation_time_origin
          [OF parse_body_dict extract_valid resolve_valid_demo valid_titan demo_prepare,
           where out = "JObj [(''images'', JArr [JStr ''QUJDREVG''])]"
             and images = "JArr [JStr ''QUJDREVG'']" and n = 6]
        C7_generation_time_origin
          [OF parse_body_dict extract_valid resolve_valid_failing valid_titan failing_prepare,
           where e = "Exn OtherError ''connection reset''"]
        C7_generation_time_origin
          [OF parse_body_dict extract_valid resolve_valid_garbled valid_titan garbled_prepare,
           where e = "Exn JSONDecodeError ''Expecting value: line 1 column 1 (char 0)''"]
        C7_generation_time_origin
          [OF parse_body_dict extract_valid resolve_valid_list_answer valid_titan
              list_answer_prepare,
           where e = "no_attribute (JArr []) ''get''" and out = "JArr []"]
        C7_generation_time_origin
          [OF parse_body_dict extract_valid resolve_valid_size_fail valid_titan size_fail_prepare,
           where e = "Exn OtherError ''Incorrect padding''"
             and out = "JObj [(''images'', JArr [JStr ''QUJDREVG''])]"
             and images = "JArr [JStr ''QUJDREVG'']"]
        demo_invoke demo_size demo_images failing_invoke garbled_invoke list_answer_invoke
        list_answer_images size_fail_invoke size_fail_size
  by (simp add: env_times)

subsection \<open>C8: the logger fails after a successful generation\<close>

text \<open>
  C8: when the generation succeeds and the audit table refuses the record, the handler
  still returns the 200 response with the images. The logger is the one modelled above
  from the spec: it keeps the failure of the table to itself, so the record is handed
  over once and the table stays empty.
\<close>

theorem C8_logger_failure_keeps_success:
  assumes "parse_body env event = Inr b"
    and "extract_parameters env b = Inr (Inr p)"
    and "resolve env b = Inr r"
    and "model r = ''titan''"
    and "prepare_titan_request env (prompt_content p) (painting_mode p) (mask_base64 p)
           (image_base64 p) = Inr rb"
    and "invoke_model env rb titan_model_id = Inr (Inr out)"
    and "py_get out ''images'' JNull = Inr images"
    and "calculate_output_images_size env images = Inr n"
    and "\<not> sink_ok env 0"
  shows "\<exists>w. lambda_handler env event =
            (Inr (respond env 200
               [(''images'', images), (''model_used'', JStr ''titan''),
                (''request_id'', JStr (uuid4 env)),
                (''generation_time_ms'', JInt (ms_since env (clock env 1) (clock env 2)))]), w)
          \<and> table w = [] \<and> length (log_calls w) = 1"
  using assms(9)
  by (simp add: handler_success [OF assms(1-8)] log_to_dynamodb_log_calls log_to_dynamodb_table
        started_simps)

text \<open>C8 at the valid body, with the audit table down.\<close>

theorem C8_witness:
  "\<not> sink_ok sink_down_env 0 \<and>
   (\<exists>w. lambda_handler sink_down_env (event_of valid_body) =
            (Inr (respond sink_down_env 200
               [(''images'', JArr [JStr ''QUJDREVG'']), (''model_used'', JStr ''titan''),
                (''request_id'', JStr (uuid4 sink_down_env)),
                (''generation_time_ms'', JInt 1000)]), w)
          \<and> table w = [] \<and> length (log_calls w) = 1)"
proof -
  have b: "prepare_titan_request sink_down_env (prompt_content valid_params)
             (painting_mode valid_params) (mask_base64 valid_params) (image_base64 valid_params)
           = Inr ''request''"
    by (simp add: sink_down_env_def demo_env_def)
  have i: "invoke_model sink_down_env ''request'' titan_model_id
             = Inr (Inr (JObj [(''images'', JArr [JStr ''QUJDREVG''])]))"
    by (simp add: sink_down_env_def demo_env_def)
  have c: "calculate_output_images_size sink_down_env (JArr [JStr ''QUJDREVG'']) = Inr 6"
    by (simp add: sink_down_env_def demo_env_def)
  have s: "\<not> sink_ok sink_down_env 0"
    by (simp add: sink_down_env_def)
  have ms: "ms_since sink_down_env (clock sink_down_env 1) (clock sink_down_env 2) = 1000"
    by (simp add: sink_down_env_def demo_env_def py_int_def)
  show ?thesis
    using C8_logger_failure_keeps_success
            [OF parse_body_dict extract_valid resolve_valid_sink_down valid_titan b i
                demo_images c s] s
    unfolding ms by simp
qed

subsection \<open>C9: the generation service raises\<close>

text \<open>
  C9: for a valid body, when the call of the generation service raises, or its answer
  cannot be read and decoded, the response is 500, its \<^verbatim>\<open>error\<close> field is the text of
  the exception, and exactly one audit record is produced: a failed one, with output
  size 0 and the model id of Titan.
\<close>

theorem C9_invoker_failure:
  assumes "parse_body env event = Inr b"
    and "extract_parameters env b = Inr (Inr p)"
    and "resolve env b = Inr r"
    and "model r = ''titan''"
    and "prepare_titan_request env (prompt_content p) (painting_mode p) (mask_base64 p)
           (image_base64 p) = Inr rb"
    and "invoke_model env rb titan_model_id = Inl e
         \<or> invoke_model env rb titan_model_id = Inr (Inl e)"
  shows "\<exists>w a. lambda_handler env event =
            (Inr (respond env 500
               [(''error'', JStr (str_exn e)), (''model_attempted'', JStr ''titan''),
                (''request_id'', JStr (uuid4 env))]), w)
          \<and> log_calls w = [a] \<and> success a = False \<and> output_size a = 0
          \<and> model_id a = ''amazon.titan-image-generator-v2:0''
          \<and> error_message a = Some (str_exn e)"
  using assms(6)
proof
  assume "invoke_model env rb titan_model_id = Inl e"
  then show ?thesis
    by (simp add: handler_invoke_raised [OF assms(1-5)] log_to_dynamodb_log_calls started_simps
          failure_record_def titan_model_id_def)
next
  assume "invoke_model env rb titan_model_id = Inr (Inl e)"
  then show ?thesis
    by (simp add: handler_undecodable [OF assms(1-5)] log_to_dynamodb_log_calls started_simps
          failure_record_def titan_model_id_def)
qed

text \<open>C9 at the valid body, with a service that raises \<^verbatim>\<open>connection reset\<close>.\<close>

theorem C9_witness:
  "\<exists>w a. lambda_handler failing_env (event_of valid_body) =
            (Inr (respond failing_env 500
               [(''error'', JStr ''connection reset''), (''model_attempted'', JStr ''titan''),
                (''request_id'', JStr (uuid4 failing_env))]), w)
          \<and> log_calls w = [a] \<and> success a = False \<and> output_size a = 0
          \<and> model_id a = ''amazon.titan-image-generator-v2:0''
          \<and> error_message a = Some ''connection reset''"
proof -
  have i: "invoke_model failing_env ''request'' titan_model_id
             = Inl (Exn OtherError ''connection reset'')
         \<or> invoke_model failing_env ''request'' titan_model_id
             = Inr (Inl (Exn OtherError ''connection reset''))"
    by (simp add: failing_invoke)
  show ?thesis
    using C9_invoker_failure [OF parse_body_dict extract_valid resolve_valid_failing valid_titan
            failing_prepare i]
    by simp
qed

subsection \<open>C10: which responses carry the request identifier\<close>

text \<open>
  C10: the identifier of the request is in the body of the success response and of
  the upstream-failure response, and in no 400 response. The handler returns with
  status 200, 400 or 500, with the key \<^verbatim>\<open>request_id\<close> in the first and the last only.
  Path by path: a request rejected while parsing or extracting, with an unsupported
  model, or whose request cannot be built gets a 400 without the key; a request whose
  generation completes gets a 200 with the identifier; a request whose generation call
  raises, or whose answer cannot be used, gets a 500 with the identifier.
\<close>

theorem C10_request_id_only_in_200_and_500:
  "(fst (lambda_handler env event) = Inr resp \<longrightarrow>
      (statusCode resp = 200 \<or> statusCode resp = 400 \<or> statusCode resp = 500) \<and>
      (statusCode resp = 200 \<or> statusCode resp = 500 \<longrightarrow>
         map_of (body resp) ''request_id'' = Some (JStr (uuid4 env))) \<and>
      (statusCode resp = 400 \<longrightarrow> ''request_id'' \<notin> fst ` set (body resp))) \<and>
   (parse_body env event = Inl resp \<or>
    parse_body env event = Inr b \<and> extract_parameters env b = Inr (Inl resp) \<longrightarrow>
      fst (lambda_handler env event) = Inr resp \<and> statusCode resp = 400 \<and>
      ''request_id'' \<notin> fst ` set (body resp)) \<and>
   (parse_body env event = Inr b \<and> extract_parameters env b = Inr (Inr p) \<and>
    resolve env b = Inr r \<longrightarrow>
      (model r \<noteq> ''titan'' \<or>
       prepare_titan_request env (prompt_content p) (painting_mode p) (mask_base64 p)
         (image_base64 p) = Inl e \<longrightarrow>
         (\<exists>resp'. fst (lambda_handler env event) = Inr resp' \<and> statusCode resp' = 400 \<and>
            ''request_id'' \<notin> fst ` set (body resp'))) \<and>
      (model r = ''titan'' \<and>
       prepare_titan_request env (prompt_content p) (painting_mode p) (mask_base64 p)
         (image_base64 p) = Inr rb \<longrightarrow>
         (invoke_model env rb titan_model_id = Inr (Inr out) \<and>
          py_get out ''images'' JNull = Inr images \<and>
          calculate_output_images_size env images = Inr n \<longrightarrow>
            (\<exists>resp'. fst (lambda_handler env event) = Inr resp' \<and> statusCode resp' = 200 \<and>
               map_of (body resp') ''request_id'' = Some (JStr (uuid4 env)))) \<and>
         (invoke_model env rb titan_model_id = Inl e \<or>
          invoke_model env rb titan_model_id = Inr (Inl e) \<or>
          invoke_model env rb titan_model_id = Inr (Inr out) \<and>
            py_get out ''images'' JNull = Inl e \<or>
          invoke_model env rb titan_model_id = Inr (Inr out) \<and>
            py_get out ''images'' JNull = Inr images \<and>
            calculate_output_images_size env images = Inl e \<longrightarrow>
            (\<exists>resp'. fst (lambda_handler env event) = Inr resp' \<and> statusCode resp' = 500 \<and>
               map_of (body resp') ''request_id'' = Some (JStr (uuid4 env))))))"
proof -
  have by_status: "(statusCode resp = 200 \<or> statusCode resp = 400 \<or> statusCode resp = 500) \<and>
      (statusCode resp = 200 \<or> statusCode resp = 500 \<longrightarrow>
         map_of (body resp) ''request_id'' = Some (JStr (uuid4 env))) \<and>
      (statusCode resp = 400 \<longrightarrow> ''request_id'' \<notin> fst ` set (body resp))"
    if ret: "fst (lambda_handler env event) = Inr resp"
  proof (cases "parse_body env event")
    case (Inl resp')
    with ret have "resp' = resp" by (simp add: handler_parse_rejected)
    with Inl parse_body_rejected [of env event resp] show ?thesis by simp
  next
    case (Inr b')
    note parsed = this
    show ?thesis
    proof (cases "extract_parameters env b'")
      case (Inl e')
      then show ?thesis using extract_parameters_returns by blast
    next
      case (Inr x)
      note extracted = this
      show ?thesis
      proof (cases x)
        case (Inl resp')
        with parsed extracted ret have "resp' = resp"
          by (simp add: handler_extract_rejected)
        with Inl extracted extract_parameters_rejected [of env b' resp] show ?thesis by simp
      next
        case (Inr p')
        note params = this
        show ?thesis
        proof (cases "resolve env b'")
          case (Inl e')
          with parsed extracted params ret show ?thesis
            by (simp add: handler_resolve_raised)
        next
          case (Inr r')
          with parsed extracted params ret
          have "fst (generate env (uuid4 env) (clock env 0) p' r' started) = resp"
            by (simp add: handler_generate)
          from generate_response [OF this] show ?thesis by auto
        qed
      qed
    qed
  qed
  have early: "fst (lambda_handler env event) = Inr resp \<and> statusCode resp = 400 \<and>
      ''request_id'' \<notin> fst ` set (body resp)"
    if "parse_body env event = Inl resp \<or>
        parse_body env event = Inr b \<and> extract_parameters env b = Inr (Inl resp)"
    using that parse_body_rejected [of env event resp] extract_parameters_rejected [of env b resp]
    by (auto simp: handler_parse_rejected handler_extract_rejected)
  have refused: "\<exists>resp'. fst (lambda_handler env event) = Inr resp' \<and> statusCode resp' = 400 \<and>
            ''request_id'' \<notin> fst ` set (body resp')"
    if "parse_body env event = Inr b" "extract_parameters env b = Inr (Inr p)"
       "resolve env b = Inr r"
       "model r \<noteq> ''titan'' \<or>
        prepare_titan_request env (prompt_content p) (painting_mode p) (mask_base64 p)
          (image_base64 p) = Inl e"
  proof (cases "model r = ''titan''")
    case False
    then show ?thesis
      by (simp add: handler_generate [OF that(1-3)] generate_other_model
            unsupported_model_result respond_def)
  next
    case True
    with that(4) show ?thesis
      by (simp add: handler_generate [OF that(1-3)] generate_build_failed
            build_failed_result respond_def)
  qed
  have completed: "\<exists>resp'. fst (lambda_handler env event) = Inr resp' \<and> statusCode resp' = 200 \<and>
               map_of (body resp') ''request_id'' = Some (JStr (uuid4 env))"
    if "parse_body env event = Inr b" "extract_parameters env b = Inr (Inr p)"
       "resolve env b = Inr r" "model r = ''titan''"
       "prepare_titan_request env (prompt_content p) (painting_mode p) (mask_base64 p)
          (image_base64 p) = Inr rb"
       "invoke_model env rb titan_model_id = Inr (Inr out)"
       "py_get out ''images'' JNull = Inr images"
       "calculate_output_images_size env images = Inr n"
    by (simp add: handler_success [OF that] respond_def)
  have failed: "\<exists>resp'. fst (lambda_handler env event) = Inr resp' \<and> statusCode resp' = 500 \<and>
               map_of (body resp') ''request_id'' = Some (JStr (uuid4 env))"
    if h: "parse_body env event = Inr b" "extract_parameters env b = Inr (Inr p)"
       "resolve env b = Inr r" "model r = ''titan''"
       "prepare_titan_request env (prompt_content p) (painting_mode p) (mask_base64 p)
          (image_base64 p) = Inr rb"
      and c: "invoke_model env rb titan_model_id = Inl e \<or>
          invoke_model env rb titan_model_id = Inr (Inl e) \<or>
          invoke_model env rb titan_model_id = Inr (Inr out) \<and>
            py_get out ''images'' JNull = Inl e \<or>
          invoke_model env rb titan_model_id = Inr (Inr out) \<and>
            py_get out ''images'' JNull = Inr images \<and>
            calculate_output_images_size env images = Inl e"
  proof (cases "invoke_model env rb titan_model_id")
    case (Inl e')
    with c have "invoke_model env rb titan_model_id = Inl e" by auto
    then show ?thesis
      by (simp add: handler_invoke_raised [OF h] respond_def)
  next
    case (Inr ans)
    with c have "ans = Inl e
         \<or> (\<exists>out. ans = Inr out \<and> py_get out ''images'' JNull = Inl e)
         \<or> (\<exists>out images. ans = Inr out \<and> py_get out ''images'' JNull = Inr images \<and>
               calculate_output_images_size env images = Inl e)"
      by auto
    from handler_late_failure [OF h Inr this] show ?thesis
      by (simp add: respond_def)
  qed
  from by_status early refused completed failed show ?thesis by blast
qed

text \<open>
  C10 at seven requests: no body, no prompt, an unsupported model, a builder that
  raises (400); the valid body (200); a service that raises and an answer that is not
  JSON (500).
\<close>

theorem C10_witness:
  "(parse_body demo_env (JObj []) =
      Inl (respond demo_env 400
             [(''error'', JStr ''Missing body in request''), (''event_keys'', JArr [])]) \<and>
    fst (lambda_handler demo_env (JObj [])) =
      Inr (respond demo_env 400
             [(''error'', JStr ''Missing body in request''), (''event_keys'', JArr [])])) \<and>
   (extract_parameters demo_env (JObj []) =
      Inr (Inl (respond demo_env 400
        [(''error'', JStr (''Missing '' @ dquoted ''prompt'' @ '' field'')),
         (''received_keys'', JArr [])])) \<and>
    fst (lambda_handler demo_env (event_of [])) =
      Inr (respond demo_env 400
        [(''error'', JStr (''Missing '' @ dquoted ''prompt'' @ '' field'')),
         (''received_keys'', JArr [])])) \<and>
   (\<exists>resp'. fst (lambda_handler demo_env (event_of (valid_body @ [(''model'', JStr ''SDXL'')])))
              = Inr resp' \<and>
            statusCode resp' = 400 \<and> ''request_id'' \<notin> fst ` set (body resp')) \<and>
   (\<exists>resp'. fst (lambda_handler build_fail_env (event_of valid_body)) = Inr resp' \<and>
            statusCode resp' = 400 \<and> ''request_id'' \<notin> fst ` set (body resp')) \<and>
   (\<exists>resp'. fst (lambda_handler demo_env (event_of valid_body)) = Inr resp' \<and>
            statusCode resp' = 200 \<and>
            map_of (body resp') ''request_id'' = Some (JStr (uuid4 demo_env))) \<and>
   (\<exists>resp'. fst (lambda_handler failing_env (event_of valid_body)) = Inr resp' \<and>
            statusCode resp' = 500 \<and>
            map_of (body resp') ''request_id'' = Some (JStr (uuid4 failing_env))) \<and>
   (\<exists>resp'. fst (lambda_handler garbled_env (event_of valid_body)) = Inr resp' \<and>
            statusCode resp' = 500 \<and>
            map_of (body resp') ''request_id'' = Some (JStr (uuid4 garbled_env)))"
proof -
  have a: "fst (lambda_handler demo_env (JObj [])) =
      Inr (respond demo_env 400
             [(''error'', JStr ''Missing body in request''), (''event_keys'', JArr [])])"
    using C10_request_id_only_in_200_and_500 [where env = demo_env and event = "JObj []"
                    and resp = "respond demo_env 400
             [(''error'', JStr ''Missing body in request''), (''event_keys'', JArr [])]"]
      parse_no_body [of demo_env]
    by blast
  have b: "fst (lambda_handler demo_env (event_of [])) =
      Inr (respond demo_env 400
        [(''error'', JStr (''Missing '' @ dquoted ''prompt'' @ '' field'')),
         (''received_keys'', JArr [])])"
    using C10_request_id_only_in_200_and_500 [where env = demo_env and event = "event_of []" and b = "JObj []"
                    and resp = "respond demo_env 400
        [(''error'', JStr (''Missing '' @ dquoted ''prompt'' @ '' field'')),
         (''received_keys'', JArr [])]"]
      parse_body_dict [of demo_env "[]"] extract_empty [of demo_env]
    by blast
  have c: "\<exists>resp'. fst (lambda_handler demo_env (event_of (valid_body @ [(''model'', JStr ''SDXL'')])))
              = Inr resp' \<and>
            statusCode resp' = 400 \<and> ''request_id'' \<notin> fst ` set (body resp')"
    using C10_request_id_only_in_200_and_500 [where env = demo_env
                    and event = "event_of (valid_body @ [(''model'', JStr ''SDXL'')])"
                    and b = "JObj (valid_body @ [(''model'', JStr ''SDXL'')])"
                    and p = valid_params
                    and r = "\<lparr>model = ''sdxl'', canvas_config = JObj [], image_size_in = 3,
                               mask_size_in = 3\<rparr>"]
      parse_body_dict [of demo_env "valid_body @ [(''model'', JStr ''SDXL'')]"]
      extract_sdxl [of demo_env] resolve_sdxl_demo
    by simp
  have d: "\<exists>resp'. fst (lambda_handler build_fail_env (event_of valid_body)) = Inr resp' \<and>
            statusCode resp' = 400 \<and> ''request_id'' \<notin> fst ` set (body resp')"
    using C10_request_id_only_in_200_and_500 [where env = build_fail_env and event = "event_of valid_body"
                    and b = "JObj valid_body" and p = valid_params and r = valid_resolved
                    and e = "Exn OtherError ''Invalid mode''"]
      parse_body_dict [of build_fail_env valid_body] extract_valid [of build_fail_env]
      resolve_valid_build_fail build_fail_prepare
    by simp
  have e: "\<exists>resp'. fst (lambda_handler demo_env (event_of valid_body)) = Inr resp' \<and>
            statusCode resp' = 200 \<and>
            map_of (body resp') ''request_id'' = Some (JStr (uuid4 demo_env))"
    using C10_request_id_only_in_200_and_500 [where env = demo_env and event = "event_of valid_body"
                    and b = "JObj valid_body" and p = valid_params and r = valid_resolved
                    and rb = "''request''"
                    and out = "JObj [(''images'', JArr [JStr ''QUJDREVG''])]"
                    and images = "JArr [JStr ''QUJDREVG'']" and n = 6]
      parse_body_dict [of demo_env valid_body] extract_valid [of demo_env]
      resolve_valid_demo valid_titan demo_prepare demo_invoke demo_images demo_size
    by simp
  have f: "\<exists>resp'. fst (lambda_handler failing_env (event_of valid_body)) = Inr resp' \<and>
            statusCode resp' = 500 \<and>
            map_of (body resp') ''request_id'' = Some (JStr (uuid4 failing_env))"
    using C10_request_id_only_in_200_and_500 [where env = failing_env and event = "event_of valid_body"
                    and b = "JObj valid_body" and p = valid_params and r = valid_resolved
                    and rb = "''request''" and e = "Exn OtherError ''connection reset''"]
      parse_body_dict [of failing_env valid_body] extract_valid [of failing_env]
      resolve_valid_failing valid_titan failing_prepare failing_invoke
    by simp
  have g: "\<exists>resp'. fst (lambda_handler garbled_env (event_of valid_body)) = Inr resp' \<and>
            statusCode resp' = 500 \<and>
            map_of (body resp') ''request_id'' = Some (JStr (uuid4 garbled_env))"
    using C10_request_id_only_in_200_and_500 [where env = garbled_env and event = "event_of valid_body"
                    and b = "JObj valid_body" and p = valid_params and r = valid_resolved
                    and rb = "''request''"
                    and e = "Exn JSONDecodeError ''Expecting value: line 1 column 1 (char 0)''"]
      parse_body_dict [of garbled_env valid_body] extract_valid [of garbled_env]
      resolve_valid_garbled valid_titan garbled_prepare garbled_invoke
    by simp
  from a b c d e f g parse_no_body [of demo_env] extract_empty [of demo_env]
  show ?thesis by blast
qed

end
